theory Spec2Isabelle
  imports
    Complex_Main
    "HOL-Library.Char_ord"
    "HOL-Library.List_Lexorder"
    "HOL-Library.Option_ord"
begin

section \<open>Exceptions\<close>

text \<open>The exceptions that the modelled code raises or catches; all of them are subclasses
  of Python's \<^verbatim>\<open>Exception\<close>. \<open>OperationalError\<close> and \<open>IntegrityError\<close> are those of
  \<^verbatim>\<open>sqlite3\<close>, \<open>DriverError\<close> stands for whatever the automation driver raises.\<close>

datatype error =
    ValueError
  | KeyError
  | TypeError
  | IndexError
  | OverflowError
  | IntegrityError
  | OperationalError
  | DriverError

section \<open>The random source\<close>

text \<open>
  The Python code draws from the global generator of the \<^verbatim>\<open>random\<close> module. Here every
  call receives the generator's raw output for that call as an argument, so a function
  that draws several times takes a record of draws, one field per call, in call order.
  \<^verbatim>\<open>random.choice(seq)\<close> is \<^verbatim>\<open>seq[self._randbelow(len(seq))]\<close>, and
  \<^verbatim>\<open>random.randint(a, b)\<close> is \<^verbatim>\<open>a + self._randbelow(b - a + 1)\<close>; the raw output is
  reduced to the range below \<open>n\<close>, every index of which is equally likely.
\<close>

definition randbelow :: "nat \<Rightarrow> nat \<Rightarrow> nat" where
  "randbelow n r = r mod n"

text \<open>Every sequence passed to \<open>choice\<close> below is a non-empty literal, so the index is in range
  (Python raises IndexError on an empty sequence).\<close>

definition choice :: "'a list \<Rightarrow> nat \<Rightarrow> 'a" where
  "choice seq r = seq ! randbelow (length seq) r"

definition randint :: "int \<Rightarrow> int \<Rightarrow> nat \<Rightarrow> int" where
  "randint a b r = a + int (randbelow (nat (b - a + 1)) r)"

text \<open>\<^verbatim>\<open>random.uniform(a, b)\<close> is \<^verbatim>\<open>a + (b - a) * self.random()\<close>; the draw \<open>u\<close> is the value of
  \<^verbatim>\<open>random()\<close>, taken as a real number.\<close>

definition uniform :: "real \<Rightarrow> real \<Rightarrow> real \<Rightarrow> real" where
  "uniform a b u = a + (b - a) * u"

text \<open>\<^verbatim>\<open>random.choices(population, k=k)\<close> picks \<open>k\<close> indices independently, with replacement.\<close>

definition choices :: "'a list \<Rightarrow> (nat \<Rightarrow> nat) \<Rightarrow> nat \<Rightarrow> 'a list" where
  "choices population f k = map (\<lambda>i. choice population (f i)) [0..<k]"

text \<open>
  \<^verbatim>\<open>random.sample(population, k)\<close> on a population of at most 21 elements copies it into a
  pool and, for each of the \<open>k\<close> picks, takes \<^verbatim>\<open>pool[j]\<close> for \<open>j\<close> below the number of elements
  still in play and moves the last element in play into position \<open>j\<close>. The list of draws
  has one entry per pick.
\<close>

fun sample :: "'a list \<Rightarrow> nat list \<Rightarrow> 'a list" where
  "sample pool [] = []"
| "sample pool (r # rs) =
     (let n = length pool; j = randbelow n r
      in pool ! j # sample (take (n - 1) (pool[j := pool ! (n - 1)])) rs)"

section \<open>Decimal rendering of integers\<close>

text \<open>The digit of a number below ten.\<close>

definition digit_char :: "nat \<Rightarrow> char" where
  "digit_char n = ''0123456789'' ! n"

fun str_nat :: "nat \<Rightarrow> string" where
  "str_nat n = (if n < 10 then [digit_char n] else str_nat (n div 10) @ [digit_char (n mod 10)])"

declare str_nat.simps [simp del]

definition str_int :: "int \<Rightarrow> string" where
  "str_int i = (if i < 0 then CHR ''-'' # str_nat (nat (- i)) else str_nat (nat i))"

section \<open>Fingerprints (browser\_manager.py, generate\_fingerprint)\<close>

record viewport_t =
  vp_width :: int
  vp_height :: int

record screen_t =
  sc_width :: int
  sc_height :: int
  colorDepth :: int
  pixelDepth :: int

record fingerprint =
  user_agent :: string
  viewport :: viewport_t
  timezone :: string
  locale_tag :: string
  platform :: string
  screen :: screen_t
  webgl_vendor :: string
  webgl_renderer :: string
  canvas_fingerprint :: string
  audio_fingerprint :: real
  fonts :: "string list"

definition user_agents :: "string list" where
  "user_agents =
    [''Mozilla/5.0 (Windows NT 10.0; Win64; x64) AppleWebKit/537.36 (KHTML, like Gecko) Chrome/120.0.0.0 Safari/537.36'',
     ''Mozilla/5.0 (Windows NT 10.0; Win64; x64) AppleWebKit/537.36 (KHTML, like Gecko) Chrome/119.0.0.0 Safari/537.36'',
     ''Mozilla/5.0 (Macintosh; Intel Mac OS X 10_15_7) AppleWebKit/537.36 (KHTML, like Gecko) Chrome/120.0.0.0 Safari/537.36'',
     ''Mozilla/5.0 (X11; Linux x86_64) AppleWebKit/537.36 (KHTML, like Gecko) Chrome/120.0.0.0 Safari/537.36'']"

definition viewports :: "(int \<times> int) list" where
  "viewports = [(1920, 1080), (1366, 768), (1440, 900), (1536, 864), (1280, 720)]"

definition timezones :: "string list" where
  "timezones =
    [''America/New_York'', ''America/Los_Angeles'', ''Europe/London'',
     ''Europe/Paris'', ''Asia/Tokyo'', ''Australia/Sydney'']"

definition locales :: "string list" where
  "locales = [''en-US'', ''en-GB'', ''fr-FR'', ''de-DE'', ''es-ES'', ''ja-JP'']"

definition platforms :: "string list" where
  "platforms = [''Win32'', ''MacIntel'', ''Linux x86_64'']"

definition webgl_vendors :: "string list" where
  "webgl_vendors = [''Google Inc.'', ''NVIDIA Corporation'', ''AMD'']"

definition font_catalog :: "string list" where
  "font_catalog =
    [''Arial'', ''Times New Roman'', ''Helvetica'', ''Georgia'', ''Verdana'',
     ''Courier New'', ''Comic Sans MS'', ''Trebuchet MS'', ''Impact'']"

text \<open>\<^verbatim>\<open>string.ascii_letters + string.digits\<close>\<close>

definition canvas_alphabet :: string where
  "canvas_alphabet =
    ''abcdefghijklmnopqrstuvwxyzABCDEFGHIJKLMNOPQRSTUVWXYZ0123456789''"

text \<open>The draws of one call of \<open>generate_fingerprint\<close>, in the order the calls are made.\<close>

record fp_draws =
  d_viewport :: nat
  d_user_agent :: nat
  d_timezone :: nat
  d_locale :: nat
  d_platform :: nat
  d_colorDepth :: nat
  d_pixelDepth :: nat
  d_vendor :: nat
  d_renderer :: nat
  d_canvas :: "nat \<Rightarrow> nat"
  d_audio :: real
  d_font_count :: nat
  d_fonts :: "nat \<Rightarrow> nat"

definition webgl_renderer_of :: "int \<Rightarrow> string" where
  "webgl_renderer_of n = ''ANGLE (Direct3D11 vs_5_0 ps_5_0, D3D11-'' @ str_int n @ '')''"

definition generate_fingerprint :: "fp_draws \<Rightarrow> fingerprint" where
  "generate_fingerprint d =
    (let vp = choice viewports (d_viewport d)
     in \<lparr> user_agent = choice user_agents (d_user_agent d),
          viewport = \<lparr> vp_width = fst vp, vp_height = snd vp \<rparr>,
          timezone = choice timezones (d_timezone d),
          locale_tag = choice locales (d_locale d),
          platform = choice platforms (d_platform d),
          screen = \<lparr> sc_width = fst vp, sc_height = snd vp,
                     colorDepth = choice [24, 32] (d_colorDepth d),
                     pixelDepth = choice [24, 32] (d_pixelDepth d) \<rparr>,
          webgl_vendor = choice webgl_vendors (d_vendor d),
          webgl_renderer = webgl_renderer_of (randint 10000 99999 (d_renderer d)),
          canvas_fingerprint = choices canvas_alphabet (d_canvas d) 32,
          audio_fingerprint = uniform 100 200 (d_audio d),
          fonts = sample font_catalog
                    (map (d_fonts d) [0..<nat (randint 5 9 (d_font_count d))]) \<rparr>)"

section \<open>Weighted selection (fingerprint\_tester/Attributes/tester.py)\<close>

text \<open>\<^verbatim>\<open>random.choice\<close> on a sequence that may be empty: IndexError on the empty sequence.\<close>

definition choice_or_raise :: "'a list \<Rightarrow> nat \<Rightarrow> error + 'a" where
  "choice_or_raise seq r = (if seq = [] then Inl IndexError else Inr (choice seq r))"

text \<open>
  The three weighted selections of \<open>AdvancedFingerprintTester\<close>. Each first draws \<open>u\<close>, the
  value of \<^verbatim>\<open>random.random()\<close>, and then one index \<open>r\<close> for the \<^verbatim>\<open>random.choice\<close> of the
  branch taken. The candidate list is the argument; the list of common values is a
  literal of the function. The probabilities are written as the decimal fractions of
  the source.
\<close>

definition get_weighted_resolution :: "real \<Rightarrow> nat \<Rightarrow> string list \<Rightarrow> error + string" where
  "get_weighted_resolution u r resolutions =
     (let common_resolutions = [''1920x1080'', ''1366x768'', ''1280x720'', ''1536x864''];
          uncommon_resolutions = filter (\<lambda>x. x \<notin> set common_resolutions) resolutions
      in if u < 0.2 \<and> common_resolutions \<noteq> []
         then choice_or_raise (filter (\<lambda>x. x \<in> set resolutions) common_resolutions) r
         else choice_or_raise
                (if uncommon_resolutions \<noteq> [] then uncommon_resolutions else resolutions) r)"

definition get_weighted_timezone :: "real \<Rightarrow> nat \<Rightarrow> string list \<Rightarrow> error + string" where
  "get_weighted_timezone u r timezone_list =
     (let common_timezones =
            [''America/New_York'', ''Europe/London'', ''America/Los_Angeles'', ''UTC''];
          uncommon_timezones = filter (\<lambda>x. x \<notin> set common_timezones) timezone_list
      in if u < 0.15 \<and> common_timezones \<noteq> []
         then choice_or_raise (filter (\<lambda>x. x \<in> set timezone_list) common_timezones) r
         else choice_or_raise
                (if uncommon_timezones \<noteq> [] then uncommon_timezones else timezone_list) r)"

definition get_weighted_language :: "real \<Rightarrow> nat \<Rightarrow> string list \<Rightarrow> error + string" where
  "get_weighted_language u r languages =
     (let common_languages = [''en-US,en;q=0.9'', ''en-GB,en;q=0.9'', ''en,en-US;q=0.9''];
          uncommon_languages = filter (\<lambda>x. x \<notin> set common_languages) languages
      in if u < 0.1 \<and> common_languages \<noteq> []
         then choice_or_raise (filter (\<lambda>x. x \<in> set languages) common_languages) r
         else choice_or_raise
                (if uncommon_languages \<noteq> [] then uncommon_languages else languages) r)"

text \<open>A fixed record of draws, used to run the generator on concrete inputs.\<close>

definition zero_draws :: fp_draws where
  "zero_draws =
    \<lparr> d_viewport = 0, d_user_agent = 0, d_timezone = 0, d_locale = 0, d_platform = 0,
      d_colorDepth = 0, d_pixelDepth = 0, d_vendor = 0, d_renderer = 0,
      d_canvas = (\<lambda>i. 0), d_audio = 0, d_font_count = 0, d_fonts = (\<lambda>i. 0) \<rparr>"

section \<open>Dates and times\<close>

text \<open>
  A Python \<^verbatim>\<open>datetime\<close> without time zone is the number of microseconds since
  0001-01-01T00:00:00 in the proleptic Gregorian calendar; the values Python can
  represent are those from \<open>0\<close> to \<open>datetime_max\<close> (9999-12-31T23:59:59.999999).
\<close>

definition us_per_day :: int where
  "us_per_day = 86400000000"

definition datetime_max :: int where
  "datetime_max = 3652059 * 86400000000 - 1"

text \<open>\<^verbatim>\<open>timedelta(minutes=m)\<close>, in microseconds: OverflowError when the number of whole days
  has a magnitude above 999999999.\<close>

definition timedelta_minutes :: "int \<Rightarrow> error + int" where
  "timedelta_minutes m =
     (if m div 1440 < - 999999999 \<or> 999999999 < m div 1440 then Inl OverflowError
      else Inr (m * 60000000))"

text \<open>\<^verbatim>\<open>datetime + timedelta\<close>: OverflowError when the result is not a date Python can
  represent.\<close>

definition datetime_add :: "int \<Rightarrow> int \<Rightarrow> error + int" where
  "datetime_add t d =
     (if 0 \<le> t + d \<and> t + d \<le> datetime_max then Inr (t + d) else Inl OverflowError)"

definition datetime_plus_minutes :: "int \<Rightarrow> int \<Rightarrow> error + int" where
  "datetime_plus_minutes t m =
     (case timedelta_minutes m of Inl e \<Rightarrow> Inl e | Inr d \<Rightarrow> datetime_add t d)"

text \<open>
  The calendar: year, month and day of a day number (1 for 0001-01-01), computed as
  Python's \<^verbatim>\<open>_ord2ymd\<close> does, from the cycles of 400, 100, 4 and 1 years.
\<close>

definition days_before_month :: "int \<Rightarrow> int" where
  "days_before_month m = [0, 0, 31, 59, 90, 120, 151, 181, 212, 243, 273, 304, 334] ! nat m"

definition days_in_month :: "int \<Rightarrow> int" where
  "days_in_month m = [0, 31, 28, 31, 30, 31, 30, 31, 31, 30, 31, 30, 31] ! nat m"

definition ord2ymd :: "int \<Rightarrow> int \<times> int \<times> int" where
  "ord2ymd ordinal =
     (let n0 = ordinal - 1;
          n400 = n0 div 146097; r400 = n0 mod 146097;
          n100 = r400 div 36524; r100 = r400 mod 36524;
          n4 = r100 div 1461; r4 = r100 mod 1461;
          n1 = r4 div 365; r1 = r4 mod 365;
          year = n400 * 400 + 1 + n100 * 100 + n4 * 4 + n1
      in if n1 = 4 \<or> n100 = 4 then (year - 1, 12, 31)
         else
           (let leapyear = (n1 = 3 \<and> (n100 = 3 \<or> n4 \<noteq> 24));
                month = (r1 + 50) div 32;
                preceding = days_before_month month + (if 2 < month \<and> leapyear then 1 else 0)
            in if r1 < preceding
               then (year, month - 1,
                     r1 - (preceding -
                           (days_in_month (month - 1) +
                            (if month - 1 = 2 \<and> leapyear then 1 else 0))) + 1)
               else (year, month, r1 - preceding + 1)))"

text \<open>Zero-padded decimal fields of two, four and six digits.\<close>

definition pad2 :: "int \<Rightarrow> string" where
  "pad2 n = [digit_char (nat (n div 10 mod 10)), digit_char (nat (n mod 10))]"

definition pad4 :: "int \<Rightarrow> string" where
  "pad4 n = pad2 (n div 100 mod 100) @ pad2 (n mod 100)"

definition pad6 :: "int \<Rightarrow> string" where
  "pad6 n = pad2 (n div 10000 mod 100) @ pad4 (n mod 10000)"

definition date_text :: "int \<Rightarrow> string" where
  "date_text t =
     (case ord2ymd (t div us_per_day + 1) of
        (y, m, d) \<Rightarrow> pad4 y @ ''-'' @ pad2 m @ ''-'' @ pad2 d)"

definition clock_text :: "int \<Rightarrow> string" where
  "clock_text t =
     (let s = t mod us_per_day div 1000000
      in pad2 (s div 3600) @ '':'' @ pad2 (s div 60 mod 60) @ '':'' @ pad2 (s mod 60))"

text \<open>\<^verbatim>\<open>datetime.isoformat()\<close>: the letter T between date and time, and the microseconds
  only when they are not zero.\<close>

definition isoformat :: "int \<Rightarrow> string" where
  "isoformat t =
     date_text t @ ''T'' @ clock_text t @
     (if t mod 1000000 = 0 then [] else ''.'' @ pad6 (t mod 1000000))"

text \<open>The text SQLite gives for a moment (\<^verbatim>\<open>datetime('now')\<close>, CURRENT\_TIMESTAMP): a space
  between date and time, whole seconds.\<close>

definition sqlite_datetime :: "int \<Rightarrow> string" where
  "sqlite_datetime t = date_text t @ '' '' @ clock_text t"

text \<open>
  The wall clock at the time of a call: the moment in UTC, and the offset of the local
  time zone in seconds. \<^verbatim>\<open>datetime.now()\<close> is the local time, without time zone;
  SQLite's \<^verbatim>\<open>datetime('now')\<close> is the time in UTC. A call that reads the clock more than
  once is given the same reading each time.
\<close>

record clock =
  utc_now :: int
  utc_offset_seconds :: int

definition datetime_now :: "clock \<Rightarrow> int" where
  "datetime_now clk = utc_now clk + utc_offset_seconds clk * 1000000"

definition now_iso :: "clock \<Rightarrow> string" where
  "now_iso clk = isoformat (datetime_now clk)"

definition sqlite_now :: "clock \<Rightarrow> string" where
  "sqlite_now clk = sqlite_datetime (utc_now clk)"

text \<open>Asyncio's \<^verbatim>\<open>sleep\<close> of a whole number of seconds returns at once for a number that is
  not positive; otherwise the event loop adds the number to its float time, which raises
  OverflowError for an integer too large for a float.\<close>

definition sleep_overflows :: "int \<Rightarrow> bool" where
  "sleep_overflows secs = (0 < secs \<and> 2 ^ 1024 - 2 ^ 970 \<le> secs)"

section \<open>Commands and the interaction plan (generate\_interaction\_commands)\<close>

text \<open>
  A command is a dict with a \<^verbatim>\<open>type\<close> key and the keys of that type; the optional keys
  (\<^verbatim>\<open>wait_for\<close> of a navigation, \<^verbatim>\<open>index\<close> of a click) are options.
\<close>

datatype command =
    Navigate string "string option"
  | Click string "int option"
  | Fill string string
  | Scroll string int
  | Wait int
  | WaitForNavigation
  | CustomAction string string

text \<open>The value of the \<^verbatim>\<open>type\<close> key.\<close>

fun command_kind :: "command \<Rightarrow> string" where
  "command_kind (Navigate url wait_for) = ''navigate''"
| "command_kind (Click selector idx) = ''click''"
| "command_kind (Fill selector v) = ''fill''"
| "command_kind (Scroll direction amount) = ''scroll''"
| "command_kind (Wait duration) = ''wait''"
| "command_kind WaitForNavigation = ''wait_for_navigation''"
| "command_kind (CustomAction action description) = ''custom_action''"

definition email_commands :: "command list" where
  "email_commands =
    [Navigate ''https://gmail.com'' (Some ''input[type='email']''),
     Fill ''input[type='email']'' ''{{email_address}}'',
     Click ''#identifierNext'' None,
     Wait 2000,
     Fill ''input[type='password']'' ''{{email_password}}'',
     Click ''#passwordNext'' None,
     WaitForNavigation,
     Scroll ''down'' 300,
     Click ''[data-tooltip='Inbox']'' None,
     CustomAction ''process_emails'' ''Check spam, move important emails, reply with AI'']"

definition browsing_urls :: "string list" where
  "browsing_urls =
    [''https://news.google.com'', ''https://www.reddit.com'', ''https://stackoverflow.com'']"

text \<open>The four draws of one call of \<open>generate_interaction_commands\<close>, in call order.\<close>

record plan_draws =
  d_url :: nat
  d_amount :: nat
  d_duration :: nat
  d_index :: nat

definition browsing_commands :: "plan_draws \<Rightarrow> command list" where
  "browsing_commands d =
    [Navigate (choice browsing_urls (d_url d)) None,
     Scroll ''down'' (randint 200 500 (d_amount d)),
     Wait (randint 1000 3000 (d_duration d)),
     Click ''a'' (Some (randint 0 5 (d_index d)))]"

text \<open>The function starts from the empty list and extends it twice; it never reads
  the store and never uses its \<open>browser_id\<close> argument.\<close>

definition generate_interaction_commands :: "plan_draws \<Rightarrow> string \<Rightarrow> command list" where
  "generate_interaction_commands d browser_id = ([] @ email_commands) @ browsing_commands d"

section \<open>The store (the SQLite tables)\<close>

text \<open>
  A table is the list of its rows in rowid order. Text columns hold strings, compared as
  SQLite compares text under the default collation: byte by byte. Timestamps are text
  columns (the ISO rendering Python wrote), so they are compared as text too. A nullable
  column is an option, \<open>None\<close> for NULL. The six columns of \<^verbatim>\<open>browsers\<close> that repeat
  fields of the fingerprint (user agent, viewport width and height, timezone, locale and
  platform) are read by none of the operations below and are left out; the fingerprint
  column holds the JSON rendering of the fingerprint, kept here as the value itself.
\<close>

record browser =
  b_id :: nat
  browser_id :: string
  b_name :: string
  proxy_id :: "int option"
  email_account_id :: "int option"
  b_fingerprint :: fingerprint
  status :: string
  to_interact :: bool
  last_interaction :: "string option"
  b_created_at :: string

record proxy =
  p_id :: int
  p_name :: "string option"
  host :: string
  port :: int
  username :: "string option"
  password :: "string option"
  protocol :: "string option"
  p_status :: string

text \<open>The \<^verbatim>\<open>proxies\<close> table is declared AUTOINCREMENT: a new row gets an id one above the
  largest id the table ever held, which \<open>p_seq\<close> remembers.\<close>

record proxy_table =
  p_rows :: "proxy list"
  p_seq :: int

text \<open>A row of \<^verbatim>\<open>commands\<close>; \<open>'d\<close> is the decoded JSON document of the data column.\<close>

record 'd command_row =
  c_id :: nat
  c_browser_id :: string
  command_type :: string
  command_data :: 'd
  c_status :: string
  scheduled_time :: "string option"
  executed_time :: "string option"
  c_created_at :: string

section \<open>Selecting the browsers due for interaction (schedule\_browser\_batch)\<close>

text \<open>
  An integer parameter bound to a statement must fit SQLite's signed 64-bit INTEGER;
  otherwise the binding raises OverflowError.
\<close>

definition fits_int64 :: "int \<Rightarrow> bool" where
  "fits_int64 n = (- (2 ^ 63) \<le> n \<and> n < 2 ^ 63)"

text \<open>\<^verbatim>\<open>LIMIT n\<close>: a negative \<open>n\<close> means no upper bound on the number of rows.\<close>

definition sql_limit :: "int \<Rightarrow> 'a list \<Rightarrow> 'a list" where
  "sql_limit n rows = (if n < 0 then rows else take (nat n) rows)"

text \<open>
  \<^verbatim>\<open>WHERE to_interact = 1 AND status != 'running' ORDER BY last_interaction ASC NULLS FIRST
  LIMIT ?\<close>. The order on options puts \<open>None\<close> first; rows with equal keys stay in table
  order.
\<close>

definition due_browsers :: "browser list \<Rightarrow> int \<Rightarrow> browser list" where
  "due_browsers bs limit =
     sql_limit limit
       (sort_key last_interaction
          (filter (\<lambda>b. to_interact b \<and> status b \<noteq> ''running'') bs))"

record batch_command =
  bc_type :: string
  browser_ids :: "string list"
  batch_size :: int
  interval_minutes :: int
  bc_scheduled_time :: string
  next_batch_time :: string

text \<open>
  The query runs first (binding the limit may raise); then the two time stamps are
  computed, the second of which raises OverflowError when \<open>now + interval\<close> is no date
  Python can represent. The two readings of \<^verbatim>\<open>datetime.now()\<close> are one reading of the clock.
\<close>

definition schedule_browser_batch ::
    "clock \<Rightarrow> browser list \<Rightarrow> int \<Rightarrow> int \<Rightarrow> error + batch_command" where
  "schedule_browser_batch clk bs limit interval =
     (if \<not> fits_int64 limit then Inl OverflowError
      else (case datetime_plus_minutes (datetime_now clk) interval of
              Inl e \<Rightarrow> Inl e
            | Inr t \<Rightarrow>
                Inr \<lparr> bc_type = ''batch_execution'',
                      browser_ids = map browser_id (due_browsers bs limit),
                      batch_size = limit,
                      interval_minutes = interval,
                      bc_scheduled_time = now_iso clk,
                      next_batch_time = isoformat t \<rparr>))"

section \<open>The command queue (get\_pending\_commands)\<close>

text \<open>
  \<open>save_command\<close>: the new row gets the next id of the AUTOINCREMENT table, the status
  \<open>pending\<close> and the creation time of the store (UTC); its scheduled time is the
  \<^verbatim>\<open>isoformat()\<close> text of the datetime passed, or NULL.
\<close>

record 'd command_table =
  c_rows :: "'d command_row list"
  c_seq :: nat

definition save_command ::
    "clock \<Rightarrow> 'd command_table \<Rightarrow> string \<Rightarrow> string \<Rightarrow> 'd \<Rightarrow> int option \<Rightarrow> 'd command_table" where
  "save_command clk t bid ctype cdata scheduled =
     (let n = max (c_seq t) (fold max (map c_id (c_rows t)) 0) + 1
      in \<lparr> c_rows = c_rows t @
                 [\<lparr> c_id = n, c_browser_id = bid, command_type = ctype, command_data = cdata,
                    c_status = ''pending'', scheduled_time = map_option isoformat scheduled,
                    executed_time = None, c_created_at = sqlite_now clk \<rparr>],
            c_seq = n \<rparr>)"

record 'd pending_command =
  pc_id :: nat
  pc_browser_id :: string
  pc_command_type :: string
  pc_command_data :: 'd
  pc_status :: string
  pc_scheduled_time :: "string option"
  pc_created_at :: string

definition pending_dict :: "'d command_row \<Rightarrow> 'd pending_command" where
  "pending_dict c =
     \<lparr> pc_id = c_id c, pc_browser_id = c_browser_id c, pc_command_type = command_type c,
       pc_command_data = command_data c, pc_status = c_status c,
       pc_scheduled_time = scheduled_time c, pc_created_at = c_created_at c \<rparr>"

text \<open>\<^verbatim>\<open>scheduled_time IS NULL OR scheduled_time <= datetime('now')\<close>; \<open>now\<close> is the text that
  \<^verbatim>\<open>datetime('now')\<close> yields.\<close>

definition due_now :: "string \<Rightarrow> 'd command_row \<Rightarrow> bool" where
  "due_now now c = (case scheduled_time c of None \<Rightarrow> True | Some t \<Rightarrow> t \<le> now)"

text \<open>
  \<^verbatim>\<open>if browser_id:\<close> takes the first query for a non-empty id; \<open>None\<close> and the empty string
  take the second. \<^verbatim>\<open>ORDER BY scheduled_time ASC\<close> puts NULL first.
\<close>

definition get_pending_commands ::
    "string \<Rightarrow> 'd command_row list \<Rightarrow> string option \<Rightarrow> 'd pending_command list" where
  "get_pending_commands now rows bid =
     map pending_dict
       (sort_key scheduled_time
          (case bid of
             Some b \<Rightarrow>
               if b \<noteq> []
               then filter (\<lambda>c. c_browser_id c = b \<and> c_status c = ''pending'') rows
               else filter (\<lambda>c. c_status c = ''pending'' \<and> due_now now c) rows
           | None \<Rightarrow> filter (\<lambda>c. c_status c = ''pending'' \<and> due_now now c) rows))"

section \<open>Concrete rows for running the operations\<close>

text \<open>Noon of 1 May 2024 in UTC, local time being UTC.\<close>

definition sample_clock :: clock where
  "sample_clock = \<lparr> utc_now = 63850161600000000, utc_offset_seconds = 0 \<rparr>"

text \<open>Two o'clock in the morning of 1 May 2024 in UTC, in a zone eight hours behind UTC,
  where it is six in the evening of 30 April.\<close>

definition west_clock :: clock where
  "west_clock = \<lparr> utc_now = 63850125600000000, utc_offset_seconds = - 28800 \<rparr>"

text \<open>One second before midnight of 1 May 2024 in UTC, local time being UTC.\<close>

definition late_clock :: clock where
  "late_clock = \<lparr> utc_now = 63850204799000000, utc_offset_seconds = 0 \<rparr>"

definition sample_browser :: "nat \<Rightarrow> string \<Rightarrow> string \<Rightarrow> bool \<Rightarrow> string option \<Rightarrow> browser" where
  "sample_browser n bid st ti li =
     \<lparr> b_id = n, browser_id = bid, b_name = ''Browser'', proxy_id = None,
       email_account_id = None, b_fingerprint = generate_fingerprint zero_draws,
       status = st, to_interact = ti, last_interaction = li,
       b_created_at = ''2024-04-01 00:00:00'' \<rparr>"

definition sample_command :: "nat \<Rightarrow> string \<Rightarrow> string \<Rightarrow> string option \<Rightarrow> command command_row" where
  "sample_command n bid st t =
     \<lparr> c_id = n, c_browser_id = bid, command_type = ''wait'', command_data = Wait 1000,
       c_status = st, scheduled_time = t, executed_time = None,
       c_created_at = ''2024-04-01 00:00:00'' \<rparr>"

section \<open>The executor (playwright\_executor.py)\<close>

subsection \<open>Launch commands (generate\_launch\_command)\<close>

record proxy_options =
  server :: string
  po_username :: "string option"
  po_password :: "string option"

text \<open>The launch and context options are all taken from the stored fingerprint, so the
  command carries the fingerprint itself, the headless flag and the proxy settings.\<close>

record launch_command =
  lc_browser_id :: string
  lc_headless :: bool
  lc_fingerprint :: fingerprint
  lc_proxy :: "proxy_options option"

text \<open>Python's truth value of a nullable integer and of a nullable string.\<close>

definition truthy_int :: "int option \<Rightarrow> bool" where
  "truthy_int v = (case v of None \<Rightarrow> False | Some n \<Rightarrow> n \<noteq> 0)"

definition nonempty_or_none :: "string option \<Rightarrow> string option" where
  "nonempty_or_none v = (case v of None \<Rightarrow> None | Some s \<Rightarrow> if s = [] then None else Some s)"

definition proxy_setting :: "proxy \<Rightarrow> proxy_options" where
  "proxy_setting p =
     \<lparr> server = ''http://'' @ host p @ '':'' @ str_int (port p),
       po_username = nonempty_or_none (username p),
       po_password = nonempty_or_none (password p) \<rparr>"

definition generate_launch_command ::
    "browser list \<Rightarrow> proxy list \<Rightarrow> string \<Rightarrow> bool \<Rightarrow> bool \<Rightarrow> error + launch_command" where
  "generate_launch_command bs ps bid headless use_proxy =
     (case find (\<lambda>b. browser_id b = bid) bs of
        None \<Rightarrow> Inl ValueError
      | Some b \<Rightarrow>
          Inr \<lparr> lc_browser_id = bid, lc_headless = headless, lc_fingerprint = b_fingerprint b,
                lc_proxy =
                  (if use_proxy \<and> truthy_int (proxy_id b)
                   then map_option proxy_setting (find (\<lambda>p. Some (p_id p) = proxy_id b) ps)
                   else None) \<rparr>)"

subsection \<open>The driver and the executor's state\<close>

text \<open>
  The automation driver is outside the program. What the executor sees of it is whether a
  call raises:
  \<^item> \<open>launch_raises c\<close>: starting the driver, launching the browser, creating the context
    and the page, or installing the fingerprint overrides raises for launch command \<open>c\<close>;
  \<^item> \<open>command_raises k\<close>: the driver calls of the command dispatched after \<open>k\<close> earlier
    commands of this executor raise;
  \<^item> \<open>close_raises b\<close>: closing the context or the browser, or stopping the driver, raises
    for browser \<open>b\<close>.
  The store is part of the program: its reads and writes are the functions below and do
  not fail.
\<close>

record driver =
  launch_raises :: "launch_command \<Rightarrow> bool"
  command_raises :: "nat \<Rightarrow> bool"
  close_raises :: "string \<Rightarrow> bool"

record browser_info =
  bi_browser_id :: string
  launched_at :: string

text \<open>What the executor prints.\<close>

datatype log_event =
    CommandErrorLogged command
  | SessionErrorLogged string error
  | CloseErrorLogged string
  | BatchStarted nat
  | BatchCompleted nat

text \<open>
  The executor's view of the world: the two tables it reads and writes, its dict of
  active browsers, the commands it has dispatched to pages (in order, with the browser
  they went to) and what it has printed.
\<close>

record executor =
  browsers :: "browser list"
  proxies :: "proxy list"
  active_browsers :: "string \<rightharpoonup> browser_info"
  dispatched :: "(string \<times> command) list"
  printed :: "log_event list"

text \<open>\<^verbatim>\<open>UPDATE browsers SET status = ? WHERE browser_id = ?\<close> and the update of the last
  interaction time.\<close>

definition update_browser_status :: "string \<Rightarrow> string \<Rightarrow> browser list \<Rightarrow> browser list" where
  "update_browser_status bid s bs =
     map (\<lambda>b. if browser_id b = bid then b\<lparr>status := s\<rparr> else b) bs"

definition update_browser_last_interaction ::
    "clock \<Rightarrow> string \<Rightarrow> browser list \<Rightarrow> browser list" where
  "update_browser_last_interaction clk bid bs =
     map (\<lambda>b. if browser_id b = bid then b\<lparr>last_interaction := Some (now_iso clk)\<rparr> else b) bs"

text \<open>The status stored for a browser id (\<open>None\<close> when no row has that id).\<close>

definition stored_status :: "browser list \<Rightarrow> string \<Rightarrow> string option" where
  "stored_status bs bid = map_option status (find (\<lambda>b. browser_id b = bid) bs)"

definition stored_last_interaction :: "browser list \<Rightarrow> string \<Rightarrow> string option option" where
  "stored_last_interaction bs bid =
     map_option last_interaction (find (\<lambda>b. browser_id b = bid) bs)"

subsection \<open>Steps that may raise\<close>

text \<open>
  A step returns the exception it raised, if any, together with the state it left
  behind: what a step changed before it raised stays changed.
\<close>

type_synonym outcome = "error option \<times> executor"

definition and_then :: "outcome \<Rightarrow> (executor \<Rightarrow> outcome) \<Rightarrow> outcome" where
  "and_then r f = (case r of (None, st) \<Rightarrow> f st | (Some e, st) \<Rightarrow> (Some e, st))"

text \<open>\<open>launch_browser\<close>: the row is marked running only after the driver has started and
  the browser has been entered into the dict of active browsers.\<close>

definition launch_browser :: "driver \<Rightarrow> clock \<Rightarrow> string \<Rightarrow> bool \<Rightarrow> executor \<Rightarrow> outcome" where
  "launch_browser drv clk bid use_proxy st =
     (case generate_launch_command (browsers st) (proxies st) bid False use_proxy of
        Inl e \<Rightarrow> (Some e, st)
      | Inr c \<Rightarrow>
          if launch_raises drv c then (Some DriverError, st)
          else (None,
                st\<lparr> active_browsers :=
                      (active_browsers st)
                        (bid \<mapsto> \<lparr> bi_browser_id = bid, launched_at = now_iso clk \<rparr>),
                    browsers := update_browser_status bid ''running'' (browsers st) \<rparr>))"

text \<open>\<open>execute_command\<close>: launches the browser first if it is not active (that launch may
  raise); then dispatches the command inside a handler that prints and swallows whatever
  the driver raises.\<close>

definition execute_command :: "driver \<Rightarrow> clock \<Rightarrow> string \<Rightarrow> command \<Rightarrow> executor \<Rightarrow> outcome" where
  "execute_command drv clk bid c st =
     and_then
       (if bid \<in> dom (active_browsers st) then (None, st)
        else launch_browser drv clk bid False st)
       (\<lambda>st1.
          let st2 = st1\<lparr>dispatched := dispatched st1 @ [(bid, c)]\<rparr>
          in (None,
              if command_raises drv (length (dispatched st1))
              then st2\<lparr>printed := printed st2 @ [CommandErrorLogged c]\<rparr>
              else st2))"

text \<open>The loop over the plan; the random pause after each command changes no state.\<close>

fun execute_commands :: "driver \<Rightarrow> clock \<Rightarrow> string \<Rightarrow> command list \<Rightarrow> executor \<Rightarrow> outcome" where
  "execute_commands drv clk bid [] st = (None, st)"
| "execute_commands drv clk bid (c # cs) st =
     and_then (execute_command drv clk bid c st) (execute_commands drv clk bid cs)"

text \<open>\<open>close_browser\<close>: only for a browser in the dict of active browsers; a failure of the
  driver while closing is printed and swallowed, then the entry is removed and the row
  is marked inactive.\<close>

definition close_browser :: "driver \<Rightarrow> string \<Rightarrow> executor \<Rightarrow> executor" where
  "close_browser drv bid st =
     (if bid \<in> dom (active_browsers st)
      then
        (let st1 = (if close_raises drv bid
                    then st\<lparr>printed := printed st @ [CloseErrorLogged bid]\<rparr> else st)
         in st1\<lparr> active_browsers := (active_browsers st1)(bid := None),
                 browsers := update_browser_status bid ''inactive'' (browsers st1) \<rparr>)
      else st)"

subsection \<open>A session (run\_single\_browser\_session)\<close>

text \<open>The body of the \<^verbatim>\<open>try\<close> block for a given plan: launch, run the plan, record the
  interaction time.\<close>

definition session_body :: "driver \<Rightarrow> clock \<Rightarrow> command list \<Rightarrow> string \<Rightarrow> executor \<Rightarrow> outcome" where
  "session_body drv clk plan bid st =
     and_then (launch_browser drv clk bid False st)
       (\<lambda>st1. and_then (execute_commands drv clk bid plan st1)
          (\<lambda>st2. (None,
                   st2\<lparr>browsers := update_browser_last_interaction clk bid (browsers st2)\<rparr>)))"

text \<open>\<^verbatim>\<open>try\<close> the body, print what it raised (\<^verbatim>\<open>except Exception\<close>), and close the browser
  in any case (\<^verbatim>\<open>finally\<close>).\<close>

definition run_session_with :: "driver \<Rightarrow> clock \<Rightarrow> command list \<Rightarrow> string \<Rightarrow> executor \<Rightarrow> executor" where
  "run_session_with drv clk plan bid st =
     (case session_body drv clk plan bid st of
        (None, st1) \<Rightarrow> close_browser drv bid st1
      | (Some e, st1) \<Rightarrow>
          close_browser drv bid (st1\<lparr>printed := printed st1 @ [SessionErrorLogged bid e]\<rparr>))"

definition run_single_browser_session ::
    "driver \<Rightarrow> clock \<Rightarrow> plan_draws \<Rightarrow> string \<Rightarrow> executor \<Rightarrow> executor" where
  "run_single_browser_session drv clk d bid st =
     run_session_with drv clk (generate_interaction_commands d bid) bid st"

subsection \<open>A batch (run\_browser\_batch)\<close>

function chunk :: "nat \<Rightarrow> 'a list \<Rightarrow> 'a list list" where
  "chunk n xs = (if n = 0 \<or> xs = [] then [] else take n xs # chunk n (drop n xs))"
  by pat_completeness auto
termination
  by (relation "measure (\<lambda>(n, xs). length xs)") auto

declare chunk.simps [simp del]

text \<open>
  The sessions of a group are started together and awaited together; here they run one
  after the other, in the order of the group. A session raises nothing, so the gathering
  of a group raises nothing either. \<open>draws b\<close> are the random draws of the session of
  browser \<open>b\<close>.
\<close>

definition run_group ::
    "driver \<Rightarrow> clock \<Rightarrow> (string \<Rightarrow> plan_draws) \<Rightarrow> string list \<Rightarrow> executor \<Rightarrow> executor" where
  "run_group drv clk draws grp st =
     fold (\<lambda>bid. run_single_browser_session drv clk (draws bid) bid) grp st"

text \<open>
  The batch starts with the selection of the due browsers, which opens the database and
  runs the query. \<open>fault\<close> is the exception the store raises there, if any (the database
  locked or unreadable, say); without one, the selection still raises what
  \<open>schedule_browser_batch\<close> raises by itself. An exception of the selection leaves the
  batch before anything is printed or run.
\<close>

definition run_browser_batch ::
    "driver \<Rightarrow> clock \<Rightarrow> (string \<Rightarrow> plan_draws) \<Rightarrow> error option \<Rightarrow> int \<Rightarrow> executor \<Rightarrow> outcome" where
  "run_browser_batch drv clk draws fault size_limit st =
     (case fault of
        Some e \<Rightarrow> (Some e, st)
      | None \<Rightarrow>
          (case schedule_browser_batch clk (browsers st) size_limit 5 of
             Inl e \<Rightarrow> (Some e, st)
           | Inr bc \<Rightarrow>
               (let ids = browser_ids bc;
                    st1 = st\<lparr>printed := printed st @ [BatchStarted (length ids)]\<rparr>;
                    st2 = fold (run_group drv clk draws) (chunk 10 ids) st1
                in (None, st2\<lparr>printed := printed st2 @ [BatchCompleted (length ids)]\<rparr>))))"

section \<open>The scheduler (BrowserScheduler)\<close>

text \<open>What the loop does, in order: a batch completed (the line announcing the wait is
  printed), an exception caught and printed, a sleep of so many seconds.\<close>

datatype sched_event =
    BatchDone
  | ErrorLogged error
  | Slept int

record scheduler =
  sched_executor :: executor
  running :: bool
  sched_events :: "sched_event list"

text \<open>
  The world around the loop, round by round: the driver, the clock of round \<open>i\<close>, the
  random draws of round \<open>i\<close>, the exception the store raises when round \<open>i\<close> selects its
  batch, and whether \<open>stop_automation\<close> was called while round \<open>i\<close> was under way (it
  clears the \<open>running\<close> flag, which the loop reads at the start of the next round).
\<close>

record world =
  w_driver :: driver
  w_clock :: "nat \<Rightarrow> clock"
  w_draws :: "nat \<Rightarrow> string \<Rightarrow> plan_draws"
  batch_fault :: "nat \<Rightarrow> error option"
  stop_during :: "nat \<Rightarrow> bool"

text \<open>
  One round of the \<^verbatim>\<open>while\<close> loop. Batch and sleep are both inside the \<^verbatim>\<open>try\<close>: when the
  batch raises, or when the sleep of \<open>interval * 60\<close> seconds raises after a completed
  batch, the handler prints the exception and sleeps 60 seconds.
\<close>

definition loop_round :: "world \<Rightarrow> int \<Rightarrow> int \<Rightarrow> nat \<Rightarrow> scheduler \<Rightarrow> scheduler" where
  "loop_round w size_limit interval i s =
     (case run_browser_batch (w_driver w) (w_clock w i) (w_draws w i) (batch_fault w i)
             size_limit (sched_executor s) of
        (None, ex) \<Rightarrow>
          s\<lparr> sched_executor := ex,
             sched_events := sched_events s @
               (if sleep_overflows (interval * 60)
                then [BatchDone, ErrorLogged OverflowError, Slept 60]
                else [BatchDone, Slept (interval * 60)]),
             running := running s \<and> \<not> stop_during w i \<rparr>
      | (Some e, ex) \<Rightarrow>
          s\<lparr> sched_executor := ex,
             sched_events := sched_events s @ [ErrorLogged e, Slept 60],
             running := running s \<and> \<not> stop_during w i \<rparr>)"

text \<open>
  The loop has no bound of its own, so it is run on fuel: \<open>automation_loop w b m n i s\<close>
  runs at most \<open>n\<close> rounds starting with round \<open>i\<close>. It has left the loop when the result
  has \<open>running\<close> false; a result with \<open>running\<close> true is a loop that used all its fuel and
  would go on.
\<close>

fun automation_loop :: "world \<Rightarrow> int \<Rightarrow> int \<Rightarrow> nat \<Rightarrow> nat \<Rightarrow> scheduler \<Rightarrow> scheduler" where
  "automation_loop w size_limit interval 0 i s = s"
| "automation_loop w size_limit interval (Suc n) i s =
     (if running s
      then automation_loop w size_limit interval n (Suc i) (loop_round w size_limit interval i s)
      else s)"

definition start_continuous_automation ::
    "world \<Rightarrow> int \<Rightarrow> int \<Rightarrow> nat \<Rightarrow> executor \<Rightarrow> scheduler" where
  "start_continuous_automation w size_limit interval fuel ex =
     automation_loop w size_limit interval fuel 0
       \<lparr> sched_executor = ex, running = True, sched_events = [] \<rparr>"

section \<open>Auxiliary notions for the executor's properties\<close>

text \<open>The commands of a plan whose driver calls raise, when the first command of the plan
  is dispatched after \<open>k\<close> earlier ones.\<close>

fun failed_commands :: "driver \<Rightarrow> nat \<Rightarrow> command list \<Rightarrow> command list" where
  "failed_commands drv k [] = []"
| "failed_commands drv k (c # cs) =
     (if command_raises drv k then [c] else []) @ failed_commands drv (Suc k) cs"

text \<open>An executor holding one inactive browser and nothing else, and three drivers.\<close>

definition sample_executor :: executor where
  "sample_executor =
     \<lparr> browsers = [sample_browser 1 ''b1'' ''inactive'' True None], proxies = [],
       active_browsers = Map.empty, dispatched = [], printed = [] \<rparr>"

definition reliable_driver :: driver where
  "reliable_driver =
     \<lparr> launch_raises = (\<lambda>c. False), command_raises = (\<lambda>k. False),
       close_raises = (\<lambda>b. False) \<rparr>"

definition no_launch_driver :: driver where
  "no_launch_driver = reliable_driver \<lparr> launch_raises := (\<lambda>c. True) \<rparr>"

definition third_command_fails_driver :: driver where
  "third_command_fails_driver = reliable_driver \<lparr> command_raises := (\<lambda>k. k = 2) \<rparr>"

definition five_commands :: "command list" where
  "five_commands =
     [Navigate ''https://news.google.com'' None, Scroll ''down'' 300, Click ''a'' (Some 0),
      Wait 1000, WaitForNavigation]"

section \<open>Auxiliary notions for the scheduler's properties\<close>

text \<open>
  Reading a list of scheduler events as rounds. A round is a completed batch followed by
  the sleep of \<open>interval * 60\<close> seconds; or a completed batch, the OverflowError of a
  sleep too long for the event loop, and the sleep of 60 seconds; or the exception of a
  batch followed by the sleep of 60 seconds. The result is the number of rounds, \<open>None\<close>
  if the list is not made of rounds.
\<close>

fun rounds :: "int \<Rightarrow> sched_event list \<Rightarrow> nat option" where
  "rounds interval [] = Some 0"
| "rounds interval (BatchDone # Slept s # evs) =
     (if s = interval * 60 \<and> \<not> sleep_overflows (interval * 60)
      then map_option Suc (rounds interval evs) else None)"
| "rounds interval (BatchDone # ErrorLogged e # Slept s # evs) =
     (if e = OverflowError \<and> s = 60 \<and> sleep_overflows (interval * 60)
      then map_option Suc (rounds interval evs) else None)"
| "rounds interval (ErrorLogged e # Slept s # evs) =
     (if s = 60 then map_option Suc (rounds interval evs) else None)"
| "rounds interval evs = None"

text \<open>A world whose store fails in round 1 and in no other round, and an executor with an
  empty store.\<close>

definition sample_world :: world where
  "sample_world =
     \<lparr> w_driver = reliable_driver, w_clock = (\<lambda>i. sample_clock),
       w_draws = (\<lambda>i b. \<lparr> d_url = 0, d_amount = 0, d_duration = 0, d_index = 0 \<rparr>),
       batch_fault = (\<lambda>i. if i = 1 then Some OperationalError else None),
       stop_during = (\<lambda>i. False) \<rparr>"

definition empty_executor :: executor where
  "empty_executor =
     \<lparr> browsers = [], proxies = [], active_browsers = Map.empty, dispatched = [],
       printed = [] \<rparr>"

section \<open>Importing proxies (csv\_import\_utility.py)\<close>

text \<open>
  A row read by \<^verbatim>\<open>csv.DictReader\<close> maps each column name of the header to the text of
  its cell; a line shorter than the header gives its missing cells the value \<^verbatim>\<open>None\<close>.
  So a row is a map from names to optional texts: a name outside the map is a column the
  header does not have.
\<close>

type_synonym csv_row = "string \<rightharpoonup> string option"

text \<open>\<^verbatim>\<open>row.get(key, default)\<close> and \<^verbatim>\<open>row[key]\<close>.\<close>

definition row_get :: "csv_row \<Rightarrow> string \<Rightarrow> string \<Rightarrow> string option" where
  "row_get row k dflt = (case row k of None \<Rightarrow> Some dflt | Some v \<Rightarrow> v)"

definition row_item :: "csv_row \<Rightarrow> string \<Rightarrow> error + string option" where
  "row_item row k = (case row k of None \<Rightarrow> Inl KeyError | Some v \<Rightarrow> Inr v)"

text \<open>
  \<^verbatim>\<open>int(row['port'])\<close>: KeyError without the column, TypeError on \<^verbatim>\<open>None\<close>, ValueError on
  a text that is no integer. The conversion of a text is the parameter \<open>to_int\<close>, \<open>None\<close>
  where Python's \<^verbatim>\<open>int\<close> raises.
\<close>

definition int_item :: "(string \<Rightarrow> int option) \<Rightarrow> csv_row \<Rightarrow> string \<Rightarrow> error + int" where
  "int_item to_int row k =
     (case row k of
        None \<Rightarrow> Inl KeyError
      | Some None \<Rightarrow> Inl TypeError
      | Some (Some s) \<Rightarrow> (case to_int s of None \<Rightarrow> Inl ValueError | Some n \<Rightarrow> Inr n))"

text \<open>The id of the next inserted row of an AUTOINCREMENT table.\<close>

definition next_id :: "proxy_table \<Rightarrow> int" where
  "next_id t = max (p_seq t) (fold max (map p_id (p_rows t)) 0) + 1"

definition insert_proxy :: "proxy_table \<Rightarrow> proxy \<Rightarrow> proxy_table" where
  "insert_proxy t p = \<lparr> p_rows = p_rows t @ [p\<lparr>p_id := next_id t\<rparr>], p_seq = next_id t \<rparr>"

text \<open>
  The INSERT of \<open>import_proxies_from_csv\<close> for one row. The values are computed left to
  right; then the statement is run: the port must fit a 64-bit integer, and the host
  column is NOT NULL. The status column takes its default. Nothing is looked up before
  the row is inserted, and the table has no uniqueness constraint.
\<close>

definition insert_csv_proxy ::
    "(string \<Rightarrow> int option) \<Rightarrow> proxy_table \<Rightarrow> csv_row \<Rightarrow> error + proxy_table" where
  "insert_csv_proxy to_int t row =
     (case row_item row ''host'' of
        Inl e \<Rightarrow> Inl e
      | Inr h \<Rightarrow>
          (case int_item to_int row ''port'' of
             Inl e \<Rightarrow> Inl e
           | Inr n \<Rightarrow>
               if \<not> fits_int64 n then Inl OverflowError
               else (case h of
                       None \<Rightarrow> Inl IntegrityError
                     | Some hs \<Rightarrow>
                         Inr (insert_proxy t
                                \<lparr> p_id = 0, p_name = row_get row ''name'' [],
                                  host = hs, port = n,
                                  username = row_get row ''username'' [],
                                  password = row_get row ''password'' [],
                                  protocol = row_get row ''protocol'' ''http'',
                                  p_status = ''active'' \<rparr>))))"

text \<open>
  The loop over the rows of the file (the file is taken as read): a row whose INSERT
  raises is reported and skipped. The result is the table, the ids of the inserted rows
  and the errors reported, in order.
\<close>

record import_result =
  ir_table :: proxy_table
  proxy_ids :: "int list"
  ir_errors :: "error list"

fun import_rows ::
    "(string \<Rightarrow> int option) \<Rightarrow> csv_row list \<Rightarrow> import_result \<Rightarrow> import_result" where
  "import_rows to_int [] r = r"
| "import_rows to_int (row # rows) r =
     import_rows to_int rows
       (case insert_csv_proxy to_int (ir_table r) row of
          Inl e \<Rightarrow> r\<lparr>ir_errors := ir_errors r @ [e]\<rparr>
        | Inr t \<Rightarrow> r\<lparr>ir_table := t, proxy_ids := proxy_ids r @ [p_seq t]\<rparr>)"

definition import_proxies_from_csv ::
    "(string \<Rightarrow> int option) \<Rightarrow> proxy_table \<Rightarrow> csv_row list \<Rightarrow> import_result" where
  "import_proxies_from_csv to_int t rows =
     import_rows to_int rows \<lparr> ir_table = t, proxy_ids = [], ir_errors = [] \<rparr>"

text \<open>
  \<open>create_or_find_proxy\<close>, the path taken when browsers are imported:
  \<^verbatim>\<open>SELECT id FROM proxies WHERE host = ? AND port = ? AND username = ?\<close>, and an INSERT
  only when no row matches. A stored NULL user name matches nothing. The new row has no
  name; protocol and status take their defaults.
\<close>

definition same_endpoint :: "string \<Rightarrow> int \<Rightarrow> string \<Rightarrow> proxy \<Rightarrow> bool" where
  "same_endpoint h n u p = (host p = h \<and> port p = n \<and> username p = Some u)"

definition create_or_find_proxy ::
    "proxy_table \<Rightarrow> string \<Rightarrow> int \<Rightarrow> string \<Rightarrow> string \<Rightarrow> error + (int \<times> proxy_table)" where
  "create_or_find_proxy t h n u pw =
     (if \<not> fits_int64 n then Inl OverflowError
      else (case find (same_endpoint h n u) (p_rows t) of
              Some p \<Rightarrow> Inr (p_id p, t)
            | None \<Rightarrow>
                (let t' = insert_proxy t
                            \<lparr> p_id = 0, p_name = None, host = h, port = n,
                              username = Some u, password = Some pw,
                              protocol = Some ''http'', p_status = ''active'' \<rparr>
                 in Inr (p_seq t', t'))))"

text \<open>The number of rows of a table with a given host, port and user name.\<close>

definition endpoint_count :: "proxy_table \<Rightarrow> string \<Rightarrow> int \<Rightarrow> string \<Rightarrow> nat" where
  "endpoint_count t h n u = length (filter (same_endpoint h n u) (p_rows t))"

text \<open>Python's \<^verbatim>\<open>int\<close> on a text of decimal digits. On any other text this stand-in answers
  \<open>None\<close>; it is used only to run the import on rows whose port is such a text.\<close>

definition digit_value :: "char \<Rightarrow> int option" where
  "digit_value c = map_of (zip ''0123456789'' [0, 1, 2, 3, 4, 5, 6, 7, 8, 9]) c"

fun digits_value :: "int \<Rightarrow> string \<Rightarrow> int option" where
  "digits_value acc [] = Some acc"
| "digits_value acc (c # cs) =
     (case digit_value c of None \<Rightarrow> None | Some v \<Rightarrow> digits_value (10 * acc + v) cs)"

definition int_of_digits :: "string \<Rightarrow> int option" where
  "int_of_digits s = (if s = [] then None else digits_value 0 s)"

text \<open>A table holding one proxy, and a row of a CSV file for the same host, port and
  user name (the first row of the sample file that \<open>generate_sample_csv_files\<close> writes).\<close>

definition one_proxy_table :: proxy_table where
  "one_proxy_table =
     \<lparr> p_rows =
         [\<lparr> p_id = 1, p_name = Some ''Proxy1'', host = ''192.168.1.100'', port = 8080,
            username = Some ''user1'', password = Some ''pass1'', protocol = Some ''http'',
            p_status = ''active'' \<rparr>],
       p_seq = 1 \<rparr>"

definition sample_proxy_row :: csv_row where
  "sample_proxy_row =
     map_of
       [(''name'', Some ''Proxy1''), (''host'', Some ''192.168.1.100''),
        (''port'', Some ''8080''), (''username'', Some ''user1''),
        (''password'', Some ''pass1''), (''protocol'', Some ''http'')]"

section \<open>Properties\<close>

subsection \<open>Fingerprints\<close>

lemma choice_enum:
  "map (choice xs) [0..<length xs] = xs"
  by (rule nth_equalityI) (simp_all add: choice_def randbelow_def)

lemma choice_in_set: "xs \<noteq> [] \<Longrightarrow> choice xs r \<in> set xs"
  by (simp add: choice_def randbelow_def)

lemma randint_range: "a \<le> b \<Longrightarrow> a \<le> randint a b r \<and> randint a b r \<le> b"
proof -
  assume ab: "a \<le> b"
  then have "r mod nat (b - a + 1) < nat (b - a + 1)"
    by (intro mod_less_divisor) simp
  then have "int (r mod nat (b - a + 1)) < int (nat (b - a + 1))"
    by (simp only: of_nat_less_iff)
  moreover have "int (nat (b - a + 1)) = b - a + 1"
    using ab by simp
  ultimately have "int (r mod nat (b - a + 1)) < b - a + 1"
    by simp
  then show ?thesis
    by (simp add: randint_def randbelow_def)
qed

text \<open>
  C8. In every fingerprint that \<open>generate_fingerprint\<close> produces, whatever the random
  draws, the viewport width equals the screen descriptor's width and the viewport height
  equals the screen descriptor's height.
\<close>

theorem C8_viewport_equals_screen:
  "vp_width (viewport (generate_fingerprint d)) = sc_width (screen (generate_fingerprint d)) \<and>
   vp_height (viewport (generate_fingerprint d)) = sc_height (screen (generate_fingerprint d))"
  by (simp add: generate_fingerprint_def Let_def)


lemma fp_viewport:
  "viewport (generate_fingerprint d) =
     \<lparr> vp_width = fst (choice viewports (d_viewport d)),
       vp_height = snd (choice viewports (d_viewport d)) \<rparr>"
  by (simp add: generate_fingerprint_def Let_def)

lemma fp_timezone: "timezone (generate_fingerprint d) = choice timezones (d_timezone d)"
  by (simp add: generate_fingerprint_def Let_def)

lemma fp_locale: "locale_tag (generate_fingerprint d) = choice locales (d_locale d)"
  by (simp add: generate_fingerprint_def Let_def)

lemma fp_vendor: "webgl_vendor (generate_fingerprint d) = choice webgl_vendors (d_vendor d)"
  by (simp add: generate_fingerprint_def Let_def)

lemma fp_renderer:
  "webgl_renderer (generate_fingerprint d) = webgl_renderer_of (randint 10000 99999 (d_renderer d))"
  by (simp add: generate_fingerprint_def Let_def)

text \<open>
  Viewport, timezone and locale of \<open>generate_fingerprint\<close> are each one \<open>choice\<close> over
  the whole candidate list, with no common subset and no weighting: whatever the other
  draws, running through the equally likely indices of the list yields the candidate
  list itself, and the candidates of a list are distinct, so every candidate is selected
  by exactly one index.
\<close>

lemma generate_fingerprint_uniform:
  "map (\<lambda>k. viewport (generate_fingerprint (d\<lparr>d_viewport := k\<rparr>))) [0..<length viewports]
     = map (\<lambda>(w, h). \<lparr> vp_width = w, vp_height = h \<rparr>) viewports \<and>
   map (\<lambda>k. timezone (generate_fingerprint (d\<lparr>d_timezone := k\<rparr>))) [0..<length timezones]
     = timezones \<and>
   map (\<lambda>k. locale_tag (generate_fingerprint (d\<lparr>d_locale := k\<rparr>))) [0..<length locales]
     = locales \<and>
   distinct viewports \<and> distinct timezones \<and> distinct locales"
proof -
  have "map (\<lambda>k. viewport (generate_fingerprint (d\<lparr>d_viewport := k\<rparr>))) [0..<length viewports]
     = map (\<lambda>(w, h). \<lparr> vp_width = w, vp_height = h \<rparr>)
         (map (choice viewports) [0..<length viewports])"
    by (simp add: fp_viewport case_prod_beta)
  then have v: "map (\<lambda>k. viewport (generate_fingerprint (d\<lparr>d_viewport := k\<rparr>)))
        [0..<length viewports]
     = map (\<lambda>(w, h). \<lparr> vp_width = w, vp_height = h \<rparr>) viewports"
    by (simp only: choice_enum)
  have "map (\<lambda>k. timezone (generate_fingerprint (d\<lparr>d_timezone := k\<rparr>))) [0..<length timezones]
     = map (choice timezones) [0..<length timezones]"
    by (simp add: fp_timezone)
  then have t: "map (\<lambda>k. timezone (generate_fingerprint (d\<lparr>d_timezone := k\<rparr>)))
        [0..<length timezones] = timezones"
    by (simp only: choice_enum)
  have "map (\<lambda>k. locale_tag (generate_fingerprint (d\<lparr>d_locale := k\<rparr>))) [0..<length locales]
     = map (choice locales) [0..<length locales]"
    by (simp add: fp_locale)
  then have l: "map (\<lambda>k. locale_tag (generate_fingerprint (d\<lparr>d_locale := k\<rparr>)))
        [0..<length locales] = locales"
    by (simp only: choice_enum)
  have dv: "distinct viewports" by (simp add: viewports_def)
  have dt: "distinct timezones" by (simp add: timezones_def)
  have dl: "distinct locales" by (simp add: locales_def)
  from v t l dv dt dl show ?thesis by blast
qed

text \<open>
  The weighted selection of the fingerprint tester, for the timezone (the other two have
  the same shape). With a draw below 0.15 and a common timezone among the candidates,
  the result is a common timezone of the candidate list. With a draw of 0.15 or more and
  a candidate that is not common, the result is a candidate that is not common, each of
  them selected by exactly one index. When every candidate is common, a draw of 0.15 or
  more selects from the whole candidate list.
\<close>

lemma get_weighted_timezone_common:
  assumes "u < 0.15"
    and "\<exists>x \<in> set timezone_list.
           x \<in> set [''America/New_York'', ''Europe/London'', ''America/Los_Angeles'', ''UTC'']"
  shows "\<exists>x. get_weighted_timezone u r timezone_list = Inr x \<and> x \<in> set timezone_list \<and>
           x \<in> set [''America/New_York'', ''Europe/London'', ''America/Los_Angeles'', ''UTC'']"
proof -
  let ?c = "[''America/New_York'', ''Europe/London'', ''America/Los_Angeles'', ''UTC'']"
  let ?f = "filter (\<lambda>x. x \<in> set timezone_list) ?c"
  from assms(2) have ne: "?f \<noteq> []"
    by (simp only: filter_empty_conv) blast
  then have "choice ?f r \<in> set ?f"
    by (rule choice_in_set)
  then have m: "choice ?f r \<in> set timezone_list \<and> choice ?f r \<in> set ?c"
    by (simp only: set_filter) blast
  have "get_weighted_timezone u r timezone_list = Inr (choice ?f r)"
    using assms(1) ne by (simp add: get_weighted_timezone_def choice_or_raise_def Let_def)
  with m show ?thesis by blast
qed

lemma get_weighted_timezone_uncommon:
  assumes "\<not> u < 0.15"
  shows "get_weighted_timezone u r timezone_list =
     (let uncommon =
            filter (\<lambda>x. x \<notin> set [''America/New_York'', ''Europe/London'',
                                      ''America/Los_Angeles'', ''UTC'']) timezone_list
      in if uncommon \<noteq> [] then Inr (choice uncommon r)
         else if timezone_list \<noteq> [] then Inr (choice timezone_list r)
         else Inl IndexError)"
  using assms by (simp add: get_weighted_timezone_def choice_or_raise_def Let_def)

lemma weighted_timezone_at_low_draw:
  "map (\<lambda>r. get_weighted_timezone 0.1 r timezones) [0, 1, 2] =
     [Inr ''America/New_York'', Inr ''Europe/London'', Inr ''America/Los_Angeles'']"
  by (simp add: get_weighted_timezone_def choice_or_raise_def Let_def choice_def
        randbelow_def timezones_def)

lemma weighted_timezone_at_high_draw:
  "map (\<lambda>r. get_weighted_timezone 0.5 r timezones) [0, 1, 2] =
     [Inr ''Europe/Paris'', Inr ''Asia/Tokyo'', Inr ''Australia/Sydney'']"
  by (simp add: get_weighted_timezone_def choice_or_raise_def Let_def choice_def
        randbelow_def timezones_def)

text \<open>
  C6. The generator that \<open>create_browser\<close> uses does not weight. The six equally likely
  timezone indices of \<open>generate_fingerprint\<close> give the six timezones, one each, so New
  York, Los Angeles and London together come up half of the time; likewise the six
  locales and the five viewports. On the same six timezones the tester's
  \<open>get_weighted_timezone\<close> picks among New York, London and Los Angeles only when its
  first draw is below 0.15, and among Paris, Tokyo and Sydney otherwise.
\<close>

theorem C6_generate_fingerprint_unweighted:
  "map (\<lambda>k. timezone (generate_fingerprint (zero_draws\<lparr>d_timezone := k\<rparr>))) [0, 1, 2, 3, 4, 5]
     = [''America/New_York'', ''America/Los_Angeles'', ''Europe/London'',
        ''Europe/Paris'', ''Asia/Tokyo'', ''Australia/Sydney''] \<and>
   map (\<lambda>k. locale_tag (generate_fingerprint (zero_draws\<lparr>d_locale := k\<rparr>))) [0, 1, 2, 3, 4, 5]
     = [''en-US'', ''en-GB'', ''fr-FR'', ''de-DE'', ''es-ES'', ''ja-JP''] \<and>
   map (\<lambda>k. viewport (generate_fingerprint (zero_draws\<lparr>d_viewport := k\<rparr>))) [0, 1, 2, 3, 4]
     = [\<lparr> vp_width = 1920, vp_height = 1080 \<rparr>, \<lparr> vp_width = 1366, vp_height = 768 \<rparr>,
        \<lparr> vp_width = 1440, vp_height = 900 \<rparr>, \<lparr> vp_width = 1536, vp_height = 864 \<rparr>,
        \<lparr> vp_width = 1280, vp_height = 720 \<rparr>] \<and>
   map (\<lambda>r. get_weighted_timezone 0.1 r timezones) [0, 1, 2] =
     [Inr ''America/New_York'', Inr ''Europe/London'', Inr ''America/Los_Angeles''] \<and>
   map (\<lambda>r. get_weighted_timezone 0.5 r timezones) [0, 1, 2] =
     [Inr ''Europe/Paris'', Inr ''Asia/Tokyo'', Inr ''Australia/Sydney'']"
proof -
  have a: "map (\<lambda>k. timezone (generate_fingerprint (zero_draws\<lparr>d_timezone := k\<rparr>)))
             [0, 1, 2, 3, 4, 5]
     = [''America/New_York'', ''America/Los_Angeles'', ''Europe/London'',
        ''Europe/Paris'', ''Asia/Tokyo'', ''Australia/Sydney'']"
    by (simp add: fp_timezone choice_def randbelow_def timezones_def)
  have b: "map (\<lambda>k. locale_tag (generate_fingerprint (zero_draws\<lparr>d_locale := k\<rparr>)))
             [0, 1, 2, 3, 4, 5]
     = [''en-US'', ''en-GB'', ''fr-FR'', ''de-DE'', ''es-ES'', ''ja-JP'']"
    by (simp add: fp_locale choice_def randbelow_def locales_def)
  have c: "map (\<lambda>k. viewport (generate_fingerprint (zero_draws\<lparr>d_viewport := k\<rparr>)))
             [0, 1, 2, 3, 4]
     = [\<lparr> vp_width = 1920, vp_height = 1080 \<rparr>, \<lparr> vp_width = 1366, vp_height = 768 \<rparr>,
        \<lparr> vp_width = 1440, vp_height = 900 \<rparr>, \<lparr> vp_width = 1536, vp_height = 864 \<rparr>,
        \<lparr> vp_width = 1280, vp_height = 720 \<rparr>]"
    by (simp add: fp_viewport choice_def randbelow_def viewports_def)
  from a b c weighted_timezone_at_low_draw weighted_timezone_at_high_draw
  show ?thesis by (intro conjI)
qed

text \<open>
  C7, as the code has it. The vendor is one \<open>choice\<close> among three names and the renderer
  is built from a separate \<open>randint\<close>: for every vendor draw \<open>v\<close> and every renderer draw
  \<open>r\<close>, whatever the other draws, the fingerprint has the vendor selected by \<open>v\<close> alone
  and the renderer selected by \<open>r\<close> alone, so every vendor occurs with every renderer.
\<close>

theorem C7_vendor_renderer_independent:
  "webgl_vendor (generate_fingerprint (d\<lparr>d_vendor := v, d_renderer := r\<rparr>))
     = choice webgl_vendors v \<and>
   webgl_renderer (generate_fingerprint (d\<lparr>d_vendor := v, d_renderer := r\<rparr>))
     = webgl_renderer_of (randint 10000 99999 r)"
  by (simp add: fp_vendor fp_renderer)

lemma renderer_at_2:
  "webgl_renderer_of (randint 10000 99999 2) = ''ANGLE (Direct3D11 vs_5_0 ps_5_0, D3D11-10002)''"
  by (simp add: webgl_renderer_of_def randint_def randbelow_def str_int_def str_nat.simps
        digit_char_def)

lemma renderer_at_7:
  "webgl_renderer_of (randint 10000 99999 7) = ''ANGLE (Direct3D11 vs_5_0 ps_5_0, D3D11-10007)''"
  by (simp add: webgl_renderer_of_def randint_def randbelow_def str_int_def str_nat.simps
        digit_char_def)

text \<open>
  C7 as stated fails: vendor and renderer are not drawn as a pair. Keeping the renderer
  draw and changing the vendor draw changes the vendor only, and the other way round: the
  two vendors and two renderers below occur in all four combinations.
\<close>

theorem C7_counterexample:
  "(let f = (\<lambda>v r. generate_fingerprint (zero_draws\<lparr>d_vendor := v, d_renderer := r\<rparr>))
    in (webgl_vendor (f 3 2), webgl_renderer (f 3 2))
         = (''Google Inc.'', ''ANGLE (Direct3D11 vs_5_0 ps_5_0, D3D11-10002)'') \<and>
       (webgl_vendor (f 4 2), webgl_renderer (f 4 2))
         = (''NVIDIA Corporation'', ''ANGLE (Direct3D11 vs_5_0 ps_5_0, D3D11-10002)'') \<and>
       (webgl_vendor (f 3 7), webgl_renderer (f 3 7))
         = (''Google Inc.'', ''ANGLE (Direct3D11 vs_5_0 ps_5_0, D3D11-10007)'') \<and>
       (webgl_vendor (f 4 7), webgl_renderer (f 4 7))
         = (''NVIDIA Corporation'', ''ANGLE (Direct3D11 vs_5_0 ps_5_0, D3D11-10007)''))"
  by (simp add: Let_def fp_vendor fp_renderer renderer_at_2 renderer_at_7 choice_def
        randbelow_def webgl_vendors_def)

subsection \<open>The interaction plan\<close>

lemma length_email_commands: "length email_commands = 10"
  by (simp add: email_commands_def)

text \<open>
  C5, as the code has it. For every identity and all draws, the plan has fourteen
  commands: the ten commands of the account-login flow (navigate, fill, click, wait,
  fill, click, wait for navigation, scroll, click, custom action), then four browsing
  commands built from the four draws: the page among three, the scroll amount between
  200 and 500, the waiting time between 1000 and 3000 and the link index between 0 and 5.
  The plan is a function of the identity and the draws, so two calls for the same
  identity with the same draws yield the same plan.
\<close>

theorem C5_plan_from_draws:
  "length (generate_interaction_commands d b) = 14 \<and>
   map command_kind (take 10 (generate_interaction_commands d b)) =
     [''navigate'', ''fill'', ''click'', ''wait'', ''fill'', ''click'',
      ''wait_for_navigation'', ''scroll'', ''click'', ''custom_action''] \<and>
   drop 10 (generate_interaction_commands d b) =
     [Navigate (choice browsing_urls (d_url d)) None,
      Scroll ''down'' (randint 200 500 (d_amount d)),
      Wait (randint 1000 3000 (d_duration d)),
      Click ''a'' (Some (randint 0 5 (d_index d)))] \<and>
   choice browsing_urls (d_url d) \<in> set browsing_urls \<and>
   200 \<le> randint 200 500 (d_amount d) \<and> randint 200 500 (d_amount d) \<le> 500 \<and>
   1000 \<le> randint 1000 3000 (d_duration d) \<and> randint 1000 3000 (d_duration d) \<le> 3000 \<and>
   0 \<le> randint 0 5 (d_index d) \<and> randint 0 5 (d_index d) \<le> 5"
proof -
  have a: "length (generate_interaction_commands d b) = 14"
    by (simp add: generate_interaction_commands_def length_email_commands browsing_commands_def)
  have k: "map command_kind (take 10 (generate_interaction_commands d b)) =
     [''navigate'', ''fill'', ''click'', ''wait'', ''fill'', ''click'',
      ''wait_for_navigation'', ''scroll'', ''click'', ''custom_action'']"
    by (simp add: generate_interaction_commands_def length_email_commands)
       (simp add: email_commands_def)
  have t: "drop 10 (generate_interaction_commands d b) =
     [Navigate (choice browsing_urls (d_url d)) None,
      Scroll ''down'' (randint 200 500 (d_amount d)),
      Wait (randint 1000 3000 (d_duration d)),
      Click ''a'' (Some (randint 0 5 (d_index d)))]"
    by (simp add: generate_interaction_commands_def length_email_commands browsing_commands_def)
  have u: "choice browsing_urls (d_url d) \<in> set browsing_urls"
    by (rule choice_in_set) (simp add: browsing_urls_def)
  have r: "200 \<le> randint 200 500 (d_amount d)" "randint 200 500 (d_amount d) \<le> 500"
    "1000 \<le> randint 1000 3000 (d_duration d)" "randint 1000 3000 (d_duration d) \<le> 3000"
    "0 \<le> randint 0 5 (d_index d)" "randint 0 5 (d_index d) \<le> 5"
    using randint_range [of 200 500 "d_amount d"] randint_range [of 1000 3000 "d_duration d"]
      randint_range [of 0 5 "d_index d"]
    by simp_all
  from a k t u r show ?thesis by (intro conjI)
qed

text \<open>
  C5 as stated fails. The plan still holds the placeholders, whatever the identity: the
  second command fills in the text \<^verbatim>\<open>{{email_address}}\<close> and the fifth the text
  \<^verbatim>\<open>{{email_password}}\<close>. And two calls for the same identity differ as soon as their
  draws differ.
\<close>

theorem C5_counterexample:
  "generate_interaction_commands \<lparr> d_url = 0, d_amount = 0, d_duration = 0, d_index = 0 \<rparr>
       ''browser-1'' ! 1
     = Fill ''input[type='email']'' ''{{email_address}}'' \<and>
   generate_interaction_commands \<lparr> d_url = 0, d_amount = 0, d_duration = 0, d_index = 0 \<rparr>
       ''browser-1'' ! 4
     = Fill ''input[type='password']'' ''{{email_password}}'' \<and>
   generate_interaction_commands \<lparr> d_url = 0, d_amount = 0, d_duration = 0, d_index = 0 \<rparr>
       ''browser-1''
     \<noteq> generate_interaction_commands \<lparr> d_url = 0, d_amount = 7, d_duration = 0, d_index = 0 \<rparr>
         ''browser-1''"
  by (simp add: generate_interaction_commands_def email_commands_def browsing_commands_def
        randint_def randbelow_def)

subsection \<open>Selecting the due browsers\<close>

lemma sorted_none_first:
  fixes ks :: "('a :: linorder) option list"
  assumes "sorted ks" "i < j" "j < length ks" "ks ! j = None"
  shows "ks ! i = None"
proof -
  from assms(1-3) have "ks ! i \<le> ks ! j"
    by (intro sorted_nth_mono) simp_all
  with assms(4) show ?thesis
    by (auto dest: less_eq_option_None_is_None)
qed

lemma due_browsers_props:
  "set (due_browsers bs limit) \<subseteq> {b \<in> set bs. to_interact b \<and> status b \<noteq> ''running''}"
  "sorted (map last_interaction (due_browsers bs limit))"
  "due_browsers bs limit =
     take (length (due_browsers bs limit))
       (sort_key last_interaction (filter (\<lambda>b. to_interact b \<and> status b \<noteq> ''running'') bs))"
  "0 \<le> limit \<Longrightarrow> length (due_browsers bs limit) =
     min (nat limit) (length (filter (\<lambda>b. to_interact b \<and> status b \<noteq> ''running'') bs))"
  "limit < 0 \<Longrightarrow> length (due_browsers bs limit) =
     length (filter (\<lambda>b. to_interact b \<and> status b \<noteq> ''running'') bs)"
proof -
  let ?E = "filter (\<lambda>b. to_interact b \<and> status b \<noteq> ''running'') bs"
  let ?S = "sort_key last_interaction ?E"
  have "set (due_browsers bs limit) \<subseteq> set ?S"
    by (auto simp: due_browsers_def sql_limit_def dest: in_set_takeD)
  then show "set (due_browsers bs limit) \<subseteq> {b \<in> set bs. to_interact b \<and> status b \<noteq> ''running''}"
    by auto
  have "sorted (map last_interaction ?S)"
    by (rule sorted_sort_key)
  then show "sorted (map last_interaction (due_browsers bs limit))"
    by (simp add: due_browsers_def sql_limit_def take_map [symmetric] sorted_wrt_take)
  show "due_browsers bs limit = take (length (due_browsers bs limit)) ?S"
    by (simp add: due_browsers_def sql_limit_def min_def)
  show "0 \<le> limit \<Longrightarrow> length (due_browsers bs limit) = min (nat limit) (length ?E)"
    by (simp add: due_browsers_def sql_limit_def min.commute)
  show "limit < 0 \<Longrightarrow> length (due_browsers bs limit) = length ?E"
    by (simp add: due_browsers_def sql_limit_def)
qed

lemma datetime_plus_minutes_error:
  "datetime_plus_minutes t m = Inl e \<Longrightarrow> e = OverflowError"
  by (auto simp: datetime_plus_minutes_def timedelta_minutes_def datetime_add_def
           split: if_splits sum.splits)

text \<open>
  C1, as the code has it. For every store state, every limit and every interval, the call
  either raises OverflowError, which it does exactly when the limit does not fit a signed
  64-bit integer or the next batch time is no date Python can represent, or it returns a
  batch. The identities of a returned batch are those of a list of rows that are all
  eligible (marked for interaction, status other than running), in ascending order of
  last interaction with the never-interacted rows (NULL) before all others; the rows are
  an initial part of that ordering of all eligible rows. For a limit of zero or more there
  are as many of them as the limit allows; a negative limit does not truncate at all.
\<close>

theorem C1_due_selection:
  "(case schedule_browser_batch clk bs limit interval of
      Inl e \<Rightarrow>
        e = OverflowError \<and>
        (\<not> fits_int64 limit \<or>
         datetime_plus_minutes (datetime_now clk) interval = Inl OverflowError)
    | Inr bc \<Rightarrow>
        fits_int64 limit \<and>
        (\<exists>t. datetime_plus_minutes (datetime_now clk) interval = Inr t) \<and>
        (\<exists>rows.
           browser_ids bc = map browser_id rows \<and>
           set rows \<subseteq> {b \<in> set bs. to_interact b \<and> status b \<noteq> ''running''} \<and>
           sorted (map last_interaction rows) \<and>
           (\<forall>i j. i < j \<and> j < length rows \<and> last_interaction (rows ! j) = None
              \<longrightarrow> last_interaction (rows ! i) = None) \<and>
           rows = take (length rows)
                    (sort_key last_interaction
                       (filter (\<lambda>b. to_interact b \<and> status b \<noteq> ''running'') bs)) \<and>
           (0 \<le> limit \<longrightarrow>
              length rows =
                min (nat limit)
                  (length (filter (\<lambda>b. to_interact b \<and> status b \<noteq> ''running'') bs))) \<and>
           (limit < 0 \<longrightarrow>
              length rows =
                length (filter (\<lambda>b. to_interact b \<and> status b \<noteq> ''running'') bs))))"
proof (cases "schedule_browser_batch clk bs limit interval")
  case (Inl e)
  then have "e = OverflowError \<and>
        (\<not> fits_int64 limit \<or>
         datetime_plus_minutes (datetime_now clk) interval = Inl OverflowError)"
    by (auto simp: schedule_browser_batch_def split: if_splits sum.splits
             dest: datetime_plus_minutes_error)
  with Inl show ?thesis by simp
next
  case (Inr bc)
  let ?rows = "due_browsers bs limit"
  from Inr have f: "fits_int64 limit"
    by (auto simp: schedule_browser_batch_def split: if_splits)
  from Inr have t: "\<exists>t. datetime_plus_minutes (datetime_now clk) interval = Inr t"
    by (auto simp: schedule_browser_batch_def split: if_splits sum.splits)
  from Inr have ids: "browser_ids bc = map browser_id ?rows"
    by (auto simp: schedule_browser_batch_def split: if_splits sum.splits)
  have nulls: "\<forall>i j. i < j \<and> j < length ?rows \<and> last_interaction (?rows ! j) = None
        \<longrightarrow> last_interaction (?rows ! i) = None"
  proof (intro allI impI)
    fix i j
    assume h: "i < j \<and> j < length ?rows \<and> last_interaction (?rows ! j) = None"
    then have "map last_interaction ?rows ! i = None"
      using sorted_none_first [OF due_browsers_props(2) [of bs limit], of i j] by simp
    with h show "last_interaction (?rows ! i) = None" by simp
  qed
  have rows: "\<exists>rows.
           browser_ids bc = map browser_id rows \<and>
           set rows \<subseteq> {b \<in> set bs. to_interact b \<and> status b \<noteq> ''running''} \<and>
           sorted (map last_interaction rows) \<and>
           (\<forall>i j. i < j \<and> j < length rows \<and> last_interaction (rows ! j) = None
              \<longrightarrow> last_interaction (rows ! i) = None) \<and>
           rows = take (length rows)
                    (sort_key last_interaction
                       (filter (\<lambda>b. to_interact b \<and> status b \<noteq> ''running'') bs)) \<and>
           (0 \<le> limit \<longrightarrow>
              length rows =
                min (nat limit)
                  (length (filter (\<lambda>b. to_interact b \<and> status b \<noteq> ''running'') bs))) \<and>
           (limit < 0 \<longrightarrow>
              length rows =
                length (filter (\<lambda>b. to_interact b \<and> status b \<noteq> ''running'') bs))"
    apply (rule exI [of _ ?rows])
    using ids nulls due_browsers_props [where bs = bs and limit = limit]
    apply (intro conjI)
    apply simp_all
    done
  from f t rows show ?thesis
    unfolding Inr by simp
qed

lemma sample_next_batch:
  "datetime_plus_minutes (datetime_now sample_clock) 5 = Inr 63850161900000000"
  by (simp add: datetime_plus_minutes_def timedelta_minutes_def datetime_add_def
        datetime_now_def sample_clock_def datetime_max_def)

text \<open>The scenario of the specification: a never-run browser, one run an hour ago and
  one not marked for interaction; a limit of two gives the never-run one, then the
  stale one.\<close>

theorem C1_due_selection_witness:
  "\<exists>bc (rows :: browser list).
     schedule_browser_batch sample_clock
       [sample_browser 1 ''stale'' ''inactive'' True (Some ''2024-05-01T11:00:00''),
        sample_browser 2 ''ineligible'' ''inactive'' False None,
        sample_browser 3 ''never'' ''inactive'' True None] 2 5 = Inr bc \<and>
     browser_ids bc = map browser_id rows \<and> browser_ids bc = [''never'', ''stale''] \<and>
     sorted (map last_interaction rows) \<and> length rows = 2"
proof -
  let ?bs = "[sample_browser 1 ''stale'' ''inactive'' True (Some ''2024-05-01T11:00:00''),
        sample_browser 2 ''ineligible'' ''inactive'' False None,
        sample_browser 3 ''never'' ''inactive'' True None]"
  have f: "fits_int64 2" by (simp add: fits_int64_def)
  obtain bc where ev: "schedule_browser_batch sample_clock ?bs 2 5 = Inr bc"
    by (simp add: schedule_browser_batch_def f sample_next_batch)
  have l: "browser_ids bc = [''never'', ''stale'']"
    using ev
    by (auto simp: schedule_browser_batch_def f sample_next_batch due_browsers_def
          sql_limit_def sample_browser_def less_eq_option_def)
  note t = C1_due_selection [where clk = sample_clock and interval = 5 and bs = ?bs
      and limit = 2]
  from t have "\<exists>rows :: browser list.
           browser_ids bc = map browser_id rows \<and>
           set rows \<subseteq> {b \<in> set ?bs. to_interact b \<and> status b \<noteq> ''running''} \<and>
           sorted (map last_interaction rows) \<and>
           (\<forall>i j. i < j \<and> j < length rows \<and> last_interaction (rows ! j) = None
              \<longrightarrow> last_interaction (rows ! i) = None) \<and>
           rows = take (length rows)
                    (sort_key last_interaction
                       (filter (\<lambda>b. to_interact b \<and> status b \<noteq> ''running'') ?bs)) \<and>
           (0 \<le> (2 :: int) \<longrightarrow>
              length rows =
                min (nat 2)
                  (length (filter (\<lambda>b. to_interact b \<and> status b \<noteq> ''running'') ?bs))) \<and>
           ((2 :: int) < 0 \<longrightarrow>
              length rows =
                length (filter (\<lambda>b. to_interact b \<and> status b \<noteq> ''running'') ?bs))"
    unfolding ev sum.case by (elim conjE)
  then show ?thesis
  proof (elim exE conjE)
    fix rows :: "browser list"
    assume ids: "browser_ids bc = map browser_id rows"
      and srt: "sorted (map last_interaction rows)"
      and len: "0 \<le> (2 :: int) \<longrightarrow>
        length rows =
          min (nat 2)
            (length (filter (\<lambda>b. to_interact b \<and> status b \<noteq> ''running'') ?bs))"
    from len have n: "length rows = 2" by (simp add: sample_browser_def)
    show ?thesis
      apply (rule exI [of _ bc])
      apply (rule exI [of _ rows])
      apply (intro conjI)
          apply (rule ev)
         apply (rule ids)
        apply (rule l)
       apply (rule srt)
      apply (rule n)
      done
  qed
qed

text \<open>An interval of a million million minutes leads past the year 9999: the call raises
  although the limit is fine.\<close>

lemma huge_interval_raises:
  "schedule_browser_batch sample_clock bs 2 1000000000000 = Inl OverflowError"
  by (simp add: schedule_browser_batch_def fits_int64_def datetime_plus_minutes_def
        timedelta_minutes_def datetime_add_def datetime_now_def sample_clock_def
        datetime_max_def)

lemma two_eligible:
  "map_sum id browser_ids
     (schedule_browser_batch sample_clock
        [sample_browser 1 ''a'' ''inactive'' True None,
         sample_browser 2 ''b'' ''inactive'' True None] 1 5)
     = Inr [''a'']"
  "map_sum id browser_ids
     (schedule_browser_batch sample_clock
        [sample_browser 1 ''a'' ''inactive'' True None,
         sample_browser 2 ''b'' ''inactive'' True None] 0 5)
     = Inr []"
  "map_sum id browser_ids
     (schedule_browser_batch sample_clock
        [sample_browser 1 ''a'' ''inactive'' True None,
         sample_browser 2 ''b'' ''inactive'' True None] (- 1) 5)
     = Inr [''a'', ''b'']"
  "map_sum id browser_ids
     (schedule_browser_batch sample_clock
        [sample_browser 1 ''a'' ''inactive'' True None,
         sample_browser 2 ''b'' ''inactive'' True None] (2 ^ 63) 5)
     = Inl OverflowError"
  by (simp_all add: schedule_browser_batch_def fits_int64_def due_browsers_def sql_limit_def
        sample_browser_def sample_next_batch)

text \<open>
  C1 as stated fails for a negative limit, which SQLite takes as no limit. With two
  eligible browsers the limit 1 returns one of them and the limit 0 none, but the limit
  \<open>-1\<close> returns both: the sequence is not truncated. And the call returns no sequence at
  all, but raises, for a limit that does not fit 64 bits and for an interval that leads
  past the last date Python can represent.
\<close>

theorem C1_counterexample:
  "map_sum id browser_ids
     (schedule_browser_batch sample_clock
        [sample_browser 1 ''a'' ''inactive'' True None,
         sample_browser 2 ''b'' ''inactive'' True None] 1 5)
     = Inr [''a''] \<and>
   map_sum id browser_ids
     (schedule_browser_batch sample_clock
        [sample_browser 1 ''a'' ''inactive'' True None,
         sample_browser 2 ''b'' ''inactive'' True None] 0 5)
     = Inr [] \<and>
   map_sum id browser_ids
     (schedule_browser_batch sample_clock
        [sample_browser 1 ''a'' ''inactive'' True None,
         sample_browser 2 ''b'' ''inactive'' True None] (- 1) 5)
     = Inr [''a'', ''b''] \<and>
   map_sum id browser_ids
     (schedule_browser_batch sample_clock
        [sample_browser 1 ''a'' ''inactive'' True None,
         sample_browser 2 ''b'' ''inactive'' True None] (2 ^ 63) 5)
     = Inl OverflowError \<and>
   schedule_browser_batch sample_clock
        [sample_browser 1 ''a'' ''inactive'' True None,
         sample_browser 2 ''b'' ''inactive'' True None] 2 1000000000000
     = Inl OverflowError"
  using two_eligible huge_interval_raises by (intro conjI)

subsection \<open>The command queue\<close>

lemma pending_dict_time: "pc_scheduled_time (pending_dict c) = scheduled_time c"
  by (simp add: pending_dict_def)

lemma sorted_pending:
  "sorted (map pc_scheduled_time (map pending_dict (sort_key scheduled_time cs)))"
proof -
  have "map pc_scheduled_time (map pending_dict (sort_key scheduled_time cs))
          = map scheduled_time (sort_key scheduled_time cs)"
    by (simp add: pending_dict_time)
  then show ?thesis
    by (simp only: sorted_sort_key)
qed

lemma pending_for_id:
  "b \<noteq> [] \<Longrightarrow> get_pending_commands now rows (Some b) =
     map pending_dict
       (sort_key scheduled_time
          (filter (\<lambda>c. c_browser_id c = b \<and> c_status c = ''pending'') rows))"
  by (simp add: get_pending_commands_def)

lemma pending_global:
  "get_pending_commands now rows None =
     map pending_dict
       (sort_key scheduled_time
          (filter (\<lambda>c. c_status c = ''pending'' \<and> due_now now c) rows))"
  by (simp add: get_pending_commands_def)

lemma due_now_iff:
  "due_now now c = (scheduled_time c = None \<or> (\<exists>t. scheduled_time c = Some t \<and> t \<le> now))"
  by (simp add: due_now_def split: option.splits)

text \<open>
  What the two queries return, in terms of the texts stored. Called with a non-empty
  browser id, \<open>get_pending_commands\<close> returns exactly the commands of that browser with
  status pending, whatever their scheduled time and whatever the current time, in
  ascending order of the scheduled-time text. Called without an id it returns exactly the
  pending commands that have no scheduled time or whose scheduled-time text is at most
  the text of \<^verbatim>\<open>datetime('now')\<close>, in the same order.
\<close>

lemma pending_commands_by_text:
  assumes "b \<noteq> []"
  shows
    "set (get_pending_commands now rows (Some b))
       = pending_dict ` {c \<in> set rows. c_browser_id c = b \<and> c_status c = ''pending''} \<and>
     length (get_pending_commands now rows (Some b))
       = length (filter (\<lambda>c. c_browser_id c = b \<and> c_status c = ''pending'') rows) \<and>
     get_pending_commands now rows (Some b) = get_pending_commands now' rows (Some b) \<and>
     sorted (map pc_scheduled_time (get_pending_commands now rows (Some b))) \<and>
     set (get_pending_commands now rows None)
       = pending_dict `
           {c \<in> set rows. c_status c = ''pending'' \<and>
              (scheduled_time c = None \<or> (\<exists>t. scheduled_time c = Some t \<and> t \<le> now))} \<and>
     sorted (map pc_scheduled_time (get_pending_commands now rows None))"
proof -
  have a: "set (get_pending_commands now rows (Some b))
       = pending_dict ` {c \<in> set rows. c_browser_id c = b \<and> c_status c = ''pending''}"
    using assms by (simp add: pending_for_id)
  have b: "length (get_pending_commands now rows (Some b))
       = length (filter (\<lambda>c. c_browser_id c = b \<and> c_status c = ''pending'') rows)"
    using assms by (simp add: pending_for_id)
  have c: "get_pending_commands now rows (Some b) = get_pending_commands now' rows (Some b)"
    using assms by (simp add: pending_for_id)
  have d: "sorted (map pc_scheduled_time (get_pending_commands now rows (Some b)))"
    unfolding pending_for_id [OF assms] by (rule sorted_pending)
  have e: "set (get_pending_commands now rows None)
       = pending_dict `
           {c \<in> set rows. c_status c = ''pending'' \<and>
              (scheduled_time c = None \<or> (\<exists>t. scheduled_time c = Some t \<and> t \<le> now))}"
    by (simp add: pending_global due_now_iff)
  have f: "sorted (map pc_scheduled_time (get_pending_commands now rows None))"
    unfolding pending_global by (rule sorted_pending)
  from a b c d e f show ?thesis by (intro conjI)
qed

text \<open>
  The due filter on the texts the program writes. \<open>save_command\<close> stores the local time
  with the letter T after the date; \<^verbatim>\<open>datetime('now')\<close> is the UTC time with a space after
  the date. The letter T sorts after the space, so the comparison is decided by the two
  dates alone: a command with a scheduled time is due exactly when the date of its local
  scheduled time is before the UTC date of the query, whatever the times of day.
\<close>

lemma append_le_same_length:
  fixes a b :: "'a :: linorder list"
  assumes "length a = length b"
  shows "(a @ x \<le> b @ y) = (a < b \<or> (a = b \<and> x \<le> y))"
  using assms by (induction a b rule: list_induct2) auto

lemma length_date_text: "length (date_text t) = 10"
  by (simp add: date_text_def pad4_def pad2_def split: prod.splits)

lemma due_filter_compares_dates:
  assumes "scheduled_time c = Some (isoformat s)"
  shows "due_now (sqlite_datetime n) c = (date_text s < date_text n)"
proof -
  have len: "length (date_text s) = length (date_text n)"
    by (simp add: length_date_text)
  have "(isoformat s \<le> sqlite_datetime n)
          = (date_text s < date_text n \<or>
             (date_text s = date_text n \<and>
              ''T'' @ clock_text s @
                 (if s mod 1000000 = 0 then [] else ''.'' @ pad6 (s mod 1000000))
              \<le> '' '' @ clock_text n))"
    unfolding isoformat_def sqlite_datetime_def by (rule append_le_same_length [OF len])
  then have "(isoformat s \<le> sqlite_datetime n) = (date_text s < date_text n)"
    by simp
  with assms show ?thesis
    by (simp add: due_now_def)
qed

lemma sample_texts:
  "isoformat 63850107600000000 = ''2024-04-30T21:00:00''"
  "isoformat 63850118400000000 = ''2024-05-01T00:00:00''"
  "sqlite_datetime 63850125600000000 = ''2024-05-01 02:00:00''"
  "sqlite_datetime 63850204799000000 = ''2024-05-01 23:59:59''"
  by (simp_all add: isoformat_def sqlite_datetime_def date_text_def clock_text_def ord2ymd_def
        us_per_day_def pad2_def pad4_def pad6_def digit_char_def days_before_month_def
        days_in_month_def Let_def)

lemma sample_nows:
  "sqlite_now west_clock = ''2024-05-01 02:00:00''"
  "sqlite_now late_clock = ''2024-05-01 23:59:59''"
  by (simp_all add: sqlite_now_def west_clock_def late_clock_def sample_texts)

text \<open>
  C10. The due filter of the call without an id does not compare times. At two in the
  morning of 1 May 2024, UTC, in a zone eight hours behind, it is six in the evening of
  30 April; a command saved with the scheduled time of nine that evening, three hours
  ahead, is stored as 2024-04-30T21:00:00, compared as a text with 2024-05-01 02:00:00
  and returned as due. And one second before midnight of 1 May, local time being UTC, a
  command scheduled for the midnight before, almost a day overdue, is stored as
  2024-05-01T00:00:00, compared with 2024-05-01 23:59:59 and not returned.
\<close>

theorem C10_due_filter_compares_texts:
  "datetime_now west_clock + 3 * 3600000000 = 63850107600000000 \<and>
   map pc_scheduled_time
     (get_pending_commands (sqlite_now west_clock)
        (c_rows (save_command west_clock \<lparr> c_rows = [], c_seq = 0 \<rparr> ''b1'' ''wait''
                   (Wait 1000) (Some 63850107600000000))) None)
     = [Some ''2024-04-30T21:00:00''] \<and>
   63850118400000000 + (86399 * 1000000) = datetime_now late_clock \<and>
   map pc_scheduled_time
     (get_pending_commands (sqlite_now late_clock)
        (c_rows (save_command late_clock \<lparr> c_rows = [], c_seq = 0 \<rparr> ''b1'' ''wait''
                   (Wait 1000) (Some 63850118400000000))) None)
     = []"
  by (simp add: get_pending_commands_def save_command_def due_now_def pending_dict_def
        sample_texts sample_nows)
     (simp add: datetime_now_def west_clock_def late_clock_def)

subsection \<open>Sessions\<close>

lemma stored_status_update:
  "stored_status (update_browser_status x s bs) x = map_option (\<lambda>_. s) (stored_status bs x)"
  by (induction bs) (simp_all add: stored_status_def update_browser_status_def)

lemma stored_status_touch:
  "stored_status (update_browser_last_interaction clk y bs) x = stored_status bs x"
  by (induction bs) (simp_all add: stored_status_def update_browser_last_interaction_def)

lemma stored_last_interaction_touch:
  "stored_last_interaction (update_browser_last_interaction clk x bs) x
     = map_option (\<lambda>_. Some (now_iso clk)) (stored_status bs x)"
  by (induction bs)
    (simp_all add: stored_status_def stored_last_interaction_def
       update_browser_last_interaction_def)

lemma stored_last_interaction_update:
  "stored_last_interaction (update_browser_status y s bs) x = stored_last_interaction bs x"
  by (induction bs) (simp_all add: stored_last_interaction_def update_browser_status_def)

lemma launch_browser_cases:
  assumes "launch_browser drv clk x up st = (r, st')"
  shows "(r \<noteq> None \<and> st' = st) \<or>
         (r = None \<and> stored_status (browsers st) x \<noteq> None \<and>
          st' = st\<lparr> active_browsers :=
                      (active_browsers st)
                        (x \<mapsto> \<lparr> bi_browser_id = x, launched_at = now_iso clk \<rparr>),
                    browsers := update_browser_status x ''running'' (browsers st) \<rparr>)"
  using assms
  by (auto simp: launch_browser_def generate_launch_command_def stored_status_def
           split: option.splits sum.splits if_splits)

lemma execute_command_active:
  assumes "x \<in> dom (active_browsers st)"
  shows "execute_command drv clk x c st =
    (None, st\<lparr> dispatched := dispatched st @ [(x, c)],
               printed := printed st @
                 (if command_raises drv (length (dispatched st)) then [CommandErrorLogged c]
                  else []) \<rparr>)"
  using assms by (simp add: execute_command_def and_then_def Let_def)

lemma execute_commands_active:
  assumes "x \<in> dom (active_browsers st)"
  shows "execute_commands drv clk x cs st =
    (None, st\<lparr> dispatched := dispatched st @ map (Pair x) cs,
               printed := printed st @
                 map CommandErrorLogged (failed_commands drv (length (dispatched st)) cs) \<rparr>)"
  using assms
proof (induction cs arbitrary: st)
  case Nil
  then show ?case by simp
next
  case (Cons c cs)
  let ?st1 = "st\<lparr> dispatched := dispatched st @ [(x, c)],
               printed := printed st @
                 (if command_raises drv (length (dispatched st)) then [CommandErrorLogged c]
                  else []) \<rparr>"
  have a: "x \<in> dom (active_browsers ?st1)" using Cons.prems by simp
  show ?case
    by (simp add: execute_command_active [OF Cons.prems] and_then_def Cons.IH [OF a])
qed

lemma session_body_cases:
  assumes "session_body drv clk plan x st = (r, st')"
  shows "(r \<noteq> None \<and> st' = st \<and> fst (launch_browser drv clk x False st) \<noteq> None) \<or>
         (r = None \<and> fst (launch_browser drv clk x False st) = None \<and>
          stored_status (browsers st) x \<noteq> None \<and>
          st' = st\<lparr> active_browsers :=
                      (active_browsers st)
                        (x \<mapsto> \<lparr> bi_browser_id = x, launched_at = now_iso clk \<rparr>),
                    browsers :=
                      update_browser_last_interaction clk x
                        (update_browser_status x ''running'' (browsers st)),
                    dispatched := dispatched st @ map (Pair x) plan,
                    printed := printed st @
                      map CommandErrorLogged
                        (failed_commands drv (length (dispatched st)) plan) \<rparr>)"
proof -
  obtain r0 st0 where l: "launch_browser drv clk x False st = (r0, st0)"
    by (cases "launch_browser drv clk x False st")
  from launch_browser_cases [OF l] show ?thesis
  proof
    assume "r0 \<noteq> None \<and> st0 = st"
    with assms l show ?thesis
      by (auto simp: session_body_def and_then_def)
  next
    assume ok: "r0 = None \<and> stored_status (browsers st) x \<noteq> None \<and>
          st0 = st\<lparr> active_browsers :=
                      (active_browsers st)
                        (x \<mapsto> \<lparr> bi_browser_id = x, launched_at = now_iso clk \<rparr>),
                    browsers := update_browser_status x ''running'' (browsers st) \<rparr>"
    then have a: "x \<in> dom (active_browsers st0)" by simp
    have ec: "execute_commands drv clk x plan st0 =
      (None, st0\<lparr> dispatched := dispatched st0 @ map (Pair x) plan,
               printed := printed st0 @
                 map CommandErrorLogged (failed_commands drv (length (dispatched st0)) plan) \<rparr>)"
      by (rule execute_commands_active [OF a])
    have l': "launch_browser drv clk x False st = (None, st0)"
      using l ok by simp
    have "session_body drv clk plan x st =
      (None, st0\<lparr> dispatched := dispatched st0 @ map (Pair x) plan,
               printed := printed st0 @
                 map CommandErrorLogged (failed_commands drv (length (dispatched st0)) plan),
               browsers := update_browser_last_interaction clk x (browsers st0) \<rparr>)"
      unfolding session_body_def l' and_then_def by (simp add: ec)
    with assms have "(r, st') =
      (None, st0\<lparr> dispatched := dispatched st0 @ map (Pair x) plan,
               printed := printed st0 @
                 map CommandErrorLogged (failed_commands drv (length (dispatched st0)) plan),
               browsers := update_browser_last_interaction clk x (browsers st0) \<rparr>)"
      by simp
    with ok have "r = None \<and>
          st' = st\<lparr> active_browsers :=
                      (active_browsers st)
                        (x \<mapsto> \<lparr> bi_browser_id = x, launched_at = now_iso clk \<rparr>),
                    browsers :=
                      update_browser_last_interaction clk x
                        (update_browser_status x ''running'' (browsers st)),
                    dispatched := dispatched st @ map (Pair x) plan,
                    printed := printed st @
                      map CommandErrorLogged
                        (failed_commands drv (length (dispatched st)) plan) \<rparr>"
      by simp
    with ok l show ?thesis by simp
  qed
qed

lemma close_browser_active:
  assumes "x \<in> dom (active_browsers st)"
  shows "close_browser drv x st =
     st\<lparr> printed := printed st @ (if close_raises drv x then [CloseErrorLogged x] else []),
         active_browsers := (active_browsers st)(x := None),
         browsers := update_browser_status x ''inactive'' (browsers st) \<rparr>"
  using assms by (simp add: close_browser_def Let_def)

lemma close_browser_status:
  assumes "stored_status (browsers st) x = Some s"
    and "x \<notin> dom (active_browsers st) \<Longrightarrow> s = ''inactive''"
  shows "stored_status (browsers (close_browser drv x st)) x = Some ''inactive''"
proof (cases "x \<in> dom (active_browsers st)")
  case True
  then show ?thesis
    using assms(1) by (simp add: close_browser_active stored_status_update)
next
  case False
  then show ?thesis
    using assms by (simp add: close_browser_def)
qed

lemma run_session_with_status:
  assumes "stored_status (browsers st) x = Some ''inactive''"
  shows "stored_status (browsers (run_session_with drv clk plan x st)) x = Some ''inactive''"
proof -
  obtain r st1 where b: "session_body drv clk plan x st = (r, st1)"
    by (cases "session_body drv clk plan x st")
  from session_body_cases [OF b] show ?thesis
  proof
    assume f: "r \<noteq> None \<and> st1 = st \<and> fst (launch_browser drv clk x False st) \<noteq> None"
    then obtain e where e: "r = Some e" by auto
    let ?st2 = "st\<lparr>printed := printed st @ [SessionErrorLogged x e]\<rparr>"
    have "stored_status (browsers (close_browser drv x ?st2)) x = Some ''inactive''"
      using assms by (intro close_browser_status [where s = "''inactive''"]) simp_all
    with b f e show ?thesis by (simp add: run_session_with_def)
  next
    assume ok: "r = None \<and> fst (launch_browser drv clk x False st) = None \<and>
          stored_status (browsers st) x \<noteq> None \<and>
          st1 = st\<lparr> active_browsers :=
                      (active_browsers st)
                        (x \<mapsto> \<lparr> bi_browser_id = x, launched_at = now_iso clk \<rparr>),
                    browsers :=
                      update_browser_last_interaction clk x
                        (update_browser_status x ''running'' (browsers st)),
                    dispatched := dispatched st @ map (Pair x) plan,
                    printed := printed st @
                      map CommandErrorLogged
                        (failed_commands drv (length (dispatched st)) plan) \<rparr>"
    then have a: "x \<in> dom (active_browsers st1)" by simp
    from ok assms have s: "stored_status (browsers st1) x = Some ''running''"
      by (simp add: stored_status_touch stored_status_update)
    have "stored_status (browsers (close_browser drv x st1)) x = Some ''inactive''"
      using s a by (intro close_browser_status [where s = "''running''"]) simp_all
    with b ok show ?thesis by (simp add: run_session_with_def)
  qed
qed

text \<open>
  C2. For every identity whose stored status is inactive before the call, the stored
  status is inactive after \<open>run_single_browser_session\<close>, for every driver: whether the
  launch raises, whichever commands raise, and whether closing raises.
\<close>

theorem C2_status_inactive_after_session:
  assumes "stored_status (browsers st) x = Some ''inactive''"
  shows "stored_status (browsers (run_single_browser_session drv clk d x st)) x
           = Some ''inactive''"
  using assms by (simp add: run_single_browser_session_def run_session_with_status)

lemma sample_status: "stored_status (browsers sample_executor) ''b1'' = Some ''inactive''"
  by (simp add: sample_executor_def sample_browser_def stored_status_def)

text \<open>The sample browser, with a driver that cannot launch and with one whose third
  command raises.\<close>

theorem C2_status_inactive_after_session_witness:
  "stored_status (browsers sample_executor) ''b1'' = Some ''inactive'' \<and>
   stored_status
     (browsers (run_single_browser_session no_launch_driver sample_clock
        \<lparr> d_url = 0, d_amount = 0, d_duration = 0, d_index = 0 \<rparr> ''b1'' sample_executor)) ''b1''
     = Some ''inactive'' \<and>
   stored_status
     (browsers (run_single_browser_session third_command_fails_driver sample_clock
        \<lparr> d_url = 0, d_amount = 0, d_duration = 0, d_index = 0 \<rparr> ''b1'' sample_executor)) ''b1''
     = Some ''inactive''"
  using sample_status
    C2_status_inactive_after_session [OF sample_status, of no_launch_driver]
    C2_status_inactive_after_session [OF sample_status, of third_command_fails_driver]
  by (intro conjI)

text \<open>
  C3. For every plan and every driver, when the launch succeeds, the session dispatches
  every command of the plan, in order, whichever of them raise; what it prints is one
  line for each command that raised (and one if closing raises), and no session error;
  the last interaction time of the browser is set to the current time, and its status
  ends inactive.
\<close>

theorem C3_command_failures_swallowed:
  assumes "fst (launch_browser drv clk x False st) = None"
  shows
    "dispatched (run_session_with drv clk plan x st) = dispatched st @ map (Pair x) plan \<and>
     printed (run_session_with drv clk plan x st) =
       printed st @
       map CommandErrorLogged (failed_commands drv (length (dispatched st)) plan) @
       (if close_raises drv x then [CloseErrorLogged x] else []) \<and>
     stored_last_interaction (browsers (run_session_with drv clk plan x st)) x
       = Some (Some (now_iso clk)) \<and>
     stored_status (browsers (run_session_with drv clk plan x st)) x = Some ''inactive'' \<and>
     run_single_browser_session drv clk d x st
       = run_session_with drv clk (generate_interaction_commands d x) x st"
proof -
  obtain r st1 where b: "session_body drv clk plan x st = (r, st1)"
    by (cases "session_body drv clk plan x st")
  from session_body_cases [OF b] assms
  have ok: "r = None" "stored_status (browsers st) x \<noteq> None"
    "st1 = st\<lparr> active_browsers :=
                      (active_browsers st)
                        (x \<mapsto> \<lparr> bi_browser_id = x, launched_at = now_iso clk \<rparr>),
                    browsers :=
                      update_browser_last_interaction clk x
                        (update_browser_status x ''running'' (browsers st)),
                    dispatched := dispatched st @ map (Pair x) plan,
                    printed := printed st @
                      map CommandErrorLogged
                        (failed_commands drv (length (dispatched st)) plan) \<rparr>"
    by auto
  from ok(3) have a: "x \<in> dom (active_browsers st1)" by simp
  have fin: "run_session_with drv clk plan x st = close_browser drv x st1"
    using b ok(1) by (simp add: run_session_with_def)
  from ok(2) obtain s where s: "stored_status (browsers st) x = Some s" by auto
  note cb = close_browser_active [OF a, of drv]
  have d: "dispatched (close_browser drv x st1) = dispatched st @ map (Pair x) plan"
    unfolding cb by (simp add: ok(3))
  have p: "printed (close_browser drv x st1) =
       printed st @
       map CommandErrorLogged (failed_commands drv (length (dispatched st)) plan) @
       (if close_raises drv x then [CloseErrorLogged x] else [])"
    unfolding cb by (simp add: ok(3))
  have li: "stored_last_interaction (browsers (close_browser drv x st1)) x
       = Some (Some (now_iso clk))"
    unfolding cb
    by (simp add: ok(3) stored_last_interaction_update stored_last_interaction_touch
          stored_status_update s)
  have stt: "stored_status (browsers (close_browser drv x st1)) x = Some ''inactive''"
    unfolding cb
    by (simp add: ok(3) stored_status_update stored_status_touch s)
  have u: "run_single_browser_session drv clk d x st
       = run_session_with drv clk (generate_interaction_commands d x) x st"
    by (simp add: run_single_browser_session_def)
  from d p li stt u show ?thesis
    unfolding fin by (intro conjI)
qed

lemma sample_launch:
  "fst (launch_browser third_command_fails_driver sample_clock ''b1'' False sample_executor)
     = None"
  by (simp add: launch_browser_def generate_launch_command_def sample_executor_def
        sample_browser_def third_command_fails_driver_def reliable_driver_def)

lemma sample_failed:
  "failed_commands third_command_fails_driver 0 five_commands = [Click ''a'' (Some 0)]"
  by (simp add: five_commands_def third_command_fails_driver_def reliable_driver_def)

text \<open>The scenario of the specification: a plan of five commands whose third command
  raises. All five are dispatched, the fourth and fifth after the failure; the only line
  printed is the error of the third command; the interaction time is recorded.\<close>

theorem C3_command_failures_swallowed_witness:
  "fst (launch_browser third_command_fails_driver sample_clock ''b1'' False sample_executor)
     = None \<and>
   dispatched
     (run_session_with third_command_fails_driver sample_clock five_commands ''b1''
        sample_executor)
     = map (Pair ''b1'') five_commands \<and>
   printed
     (run_session_with third_command_fails_driver sample_clock five_commands ''b1''
        sample_executor)
     = [CommandErrorLogged (Click ''a'' (Some 0))] \<and>
   stored_last_interaction
     (browsers (run_session_with third_command_fails_driver sample_clock five_commands ''b1''
        sample_executor)) ''b1''
     = Some (Some ''2024-05-01T12:00:00'')"
proof -
  note t = C3_command_failures_swallowed [OF sample_launch, where plan = five_commands]
  have e: "dispatched sample_executor = []" "printed sample_executor = []"
    by (simp_all add: sample_executor_def)
  have c: "\<not> close_raises third_command_fails_driver ''b1''"
    by (simp add: third_command_fails_driver_def reliable_driver_def)
  have n: "now_iso sample_clock = ''2024-05-01T12:00:00''"
    by (simp add: now_iso_def datetime_now_def sample_clock_def isoformat_def date_text_def
          clock_text_def ord2ymd_def us_per_day_def pad2_def pad4_def digit_char_def
          days_before_month_def days_in_month_def Let_def)
  from t have "dispatched
     (run_session_with third_command_fails_driver sample_clock five_commands ''b1''
        sample_executor)
     = map (Pair ''b1'') five_commands"
    by (simp add: e)
  moreover from t have "printed
     (run_session_with third_command_fails_driver sample_clock five_commands ''b1''
        sample_executor)
     = [CommandErrorLogged (Click ''a'' (Some 0))]"
    by (simp add: e c sample_failed)
  moreover from t have "stored_last_interaction
     (browsers (run_session_with third_command_fails_driver sample_clock five_commands ''b1''
        sample_executor)) ''b1''
     = Some (Some ''2024-05-01T12:00:00'')"
    by (simp add: n)
  ultimately show ?thesis
    using sample_launch by (intro conjI)
qed

subsection \<open>The continuous loop\<close>

lemma rounds_append:
  "rounds iv evs = Some k \<Longrightarrow> rounds iv evs' = Some k' \<Longrightarrow> rounds iv (evs @ evs') = Some (k + k')"
  by (induction iv evs arbitrary: k rule: rounds.induct) (auto split: if_splits)

lemma batch_fault_raises:
  "run_browser_batch drv clk draws (Some e) b ex = (Some e, ex)"
  by (simp add: run_browser_batch_def)

lemma loop_round_events:
  "\<exists>evs. sched_events (loop_round w b iv i s) = sched_events s @ evs \<and> rounds iv evs = Some 1"
  by (cases "run_browser_batch (w_driver w) (w_clock w i) (w_draws w i) (batch_fault w i) b
               (sched_executor s)")
     (auto simp: loop_round_def split: option.splits)

lemma loop_round_running:
  "running (loop_round w b iv i s) = (running s \<and> \<not> stop_during w i)"
  by (cases "run_browser_batch (w_driver w) (w_clock w i) (w_draws w i) (batch_fault w i) b
               (sched_executor s)")
     (auto simp: loop_round_def split: option.splits)

lemma loop_round_failed:
  assumes "fst (run_browser_batch (w_driver w) (w_clock w i) (w_draws w i) (batch_fault w i) b
                  (sched_executor s)) = Some e"
  shows "sched_events (loop_round w b iv i s) = sched_events s @ [ErrorLogged e, Slept 60]"
  using assms
  by (cases "run_browser_batch (w_driver w) (w_clock w i) (w_draws w i) (batch_fault w i) b
               (sched_executor s)")
     (auto simp: loop_round_def split: option.splits)

lemma loop_round_completed:
  assumes "fst (run_browser_batch (w_driver w) (w_clock w i) (w_draws w i) (batch_fault w i) b
                  (sched_executor s)) = None"
  shows "sched_events (loop_round w b iv i s) =
           sched_events s @
             (if sleep_overflows (iv * 60) then [BatchDone, ErrorLogged OverflowError, Slept 60]
              else [BatchDone, Slept (iv * 60)])"
  using assms
  by (cases "run_browser_batch (w_driver w) (w_clock w i) (w_draws w i) (batch_fault w i) b
               (sched_executor s)")
     (auto simp: loop_round_def split: option.splits)

lemma automation_loop_snoc:
  "automation_loop w b iv (Suc n) i s =
     (if running (automation_loop w b iv n i s)
      then loop_round w b iv (i + n) (automation_loop w b iv n i s)
      else automation_loop w b iv n i s)"
proof (induction n arbitrary: i s)
  case 0
  then show ?case by simp
next
  case (Suc n)
  show ?case
  proof (cases "running s")
    case True
    then show ?thesis
      using Suc.IH [of "Suc i" "loop_round w b iv i s"] by simp
  next
    case False
    then show ?thesis by simp
  qed
qed

lemma automation_loop_keeps_going:
  assumes "running s" "\<forall>k<n. \<not> stop_during w (i + k)" "rounds iv (sched_events s) = Some m"
  shows "running (automation_loop w b iv n i s) \<and>
         rounds iv (sched_events (automation_loop w b iv n i s)) = Some (m + n)"
  using assms
proof (induction n arbitrary: i s m)
  case 0
  then show ?case by simp
next
  case (Suc n)
  let ?s = "loop_round w b iv i s"
  from Suc.prems(2) have now: "\<not> stop_during w i" by (metis add.right_neutral zero_less_Suc)
  from Suc.prems(2) have later: "\<forall>k<n. \<not> stop_during w (Suc i + k)"
    by (metis Suc_less_eq add_Suc_shift)
  have r: "running ?s" using Suc.prems(1) now by (simp add: loop_round_running)
  obtain evs where evs: "sched_events ?s = sched_events s @ evs" "rounds iv evs = Some 1"
    using loop_round_events by blast
  have m: "rounds iv (sched_events ?s) = Some (m + 1)"
    unfolding evs(1) by (rule rounds_append [OF Suc.prems(3) evs(2)])
  from Suc.IH [OF r later m] Suc.prems(1) show ?case by simp
qed

text \<open>
  C4, as the code has it. As long as no stop is requested, the loop is still running
  after any number \<open>n\<close> of rounds, whatever was raised in them, and what it did is \<open>n\<close>
  rounds. If the next batch raises an exception, whichever it is (any exception the store
  raises when the batch is selected escapes the batch), the loop prints it, sleeps the
  fixed 60 seconds and goes on to the following round unless a stop was requested
  meanwhile. If the next batch completes, the loop sleeps \<open>interval * 60\<close> seconds, or,
  when that sleep itself raises, prints the exception and sleeps 60 seconds. The 60
  seconds are shorter than the normal sleep exactly when the interval is two minutes or
  more.
\<close>

theorem C4_loop_survives_batch_errors:
  assumes "\<forall>i<n. \<not> stop_during w i"
  shows
    "running (start_continuous_automation w b iv n ex) \<and>
     rounds iv (sched_events (start_continuous_automation w b iv n ex)) = Some n \<and>
     (\<forall>e. fst (run_browser_batch (w_driver w) (w_clock w n) (w_draws w n) (batch_fault w n) b
                 (sched_executor (start_continuous_automation w b iv n ex))) = Some e
        \<longrightarrow> sched_events (start_continuous_automation w b iv (Suc n) ex)
              = sched_events (start_continuous_automation w b iv n ex)
                  @ [ErrorLogged e, Slept 60] \<and>
            running (start_continuous_automation w b iv (Suc n) ex) = (\<not> stop_during w n)) \<and>
     (\<forall>e. batch_fault w n = Some e
        \<longrightarrow> fst (run_browser_batch (w_driver w) (w_clock w n) (w_draws w n) (batch_fault w n) b
                 (sched_executor (start_continuous_automation w b iv n ex))) = Some e) \<and>
     (fst (run_browser_batch (w_driver w) (w_clock w n) (w_draws w n) (batch_fault w n) b
             (sched_executor (start_continuous_automation w b iv n ex))) = None
        \<longrightarrow> sched_events (start_continuous_automation w b iv (Suc n) ex)
              = sched_events (start_continuous_automation w b iv n ex)
                  @ (if sleep_overflows (iv * 60)
                     then [BatchDone, ErrorLogged OverflowError, Slept 60]
                     else [BatchDone, Slept (iv * 60)]) \<and>
            running (start_continuous_automation w b iv (Suc n) ex) = (\<not> stop_during w n)) \<and>
     ((60 < iv * 60) = (2 \<le> iv))"
proof -
  let ?s0 = "\<lparr> sched_executor = ex, running = True, sched_events = [] \<rparr>"
  let ?sn = "automation_loop w b iv n 0 ?s0"
  have k: "running ?sn \<and> rounds iv (sched_events ?sn) = Some (0 + n)"
    using assms by (intro automation_loop_keeps_going) simp_all
  have nxt: "automation_loop w b iv (Suc n) 0 ?s0 = loop_round w b iv n ?sn"
    using k by (simp only: automation_loop_snoc) simp
  have step: "\<forall>e. fst (run_browser_batch (w_driver w) (w_clock w n) (w_draws w n)
                 (batch_fault w n) b (sched_executor ?sn)) = Some e
        \<longrightarrow> sched_events (automation_loop w b iv (Suc n) 0 ?s0)
              = sched_events ?sn @ [ErrorLogged e, Slept 60] \<and>
            running (automation_loop w b iv (Suc n) 0 ?s0) = (\<not> stop_during w n)"
    unfolding nxt using k by (simp add: loop_round_failed loop_round_running)
  have flt: "\<forall>e. batch_fault w n = Some e
        \<longrightarrow> fst (run_browser_batch (w_driver w) (w_clock w n) (w_draws w n) (batch_fault w n) b
                 (sched_executor ?sn)) = Some e"
    by (simp add: batch_fault_raises)
  have cmp: "fst (run_browser_batch (w_driver w) (w_clock w n) (w_draws w n) (batch_fault w n) b
             (sched_executor ?sn)) = None
        \<longrightarrow> sched_events (automation_loop w b iv (Suc n) 0 ?s0)
              = sched_events ?sn
                  @ (if sleep_overflows (iv * 60)
                     then [BatchDone, ErrorLogged OverflowError, Slept 60]
                     else [BatchDone, Slept (iv * 60)]) \<and>
            running (automation_loop w b iv (Suc n) 0 ?s0) = (\<not> stop_during w n)"
    unfolding nxt using k by (simp add: loop_round_completed loop_round_running)
  have ar: "(60 < iv * 60) = (2 \<le> iv)" by arith
  from k have k': "running ?sn" "rounds iv (sched_events ?sn) = Some n" by simp_all
  from k' step flt cmp ar show ?thesis
    unfolding start_continuous_automation_def by (intro conjI)
qed

lemma empty_batch:
  assumes "browsers ex = []"
  shows "run_browser_batch drv sample_clock draws None 10 ex =
     (None, ex\<lparr>printed := printed ex @ [BatchStarted 0, BatchCompleted 0]\<rparr>)"
  using assms
  by (simp add: run_browser_batch_def schedule_browser_batch_def fits_int64_def
        sample_next_batch due_browsers_def sql_limit_def chunk.simps)

lemma sample_round_0:
  "loop_round sample_world 10 iv 0 \<lparr> sched_executor = empty_executor, running = True,
       sched_events = [] \<rparr> =
     \<lparr> sched_executor = empty_executor\<lparr>printed := [BatchStarted 0, BatchCompleted 0]\<rparr>,
       running = True,
       sched_events =
         (if sleep_overflows (iv * 60) then [BatchDone, ErrorLogged OverflowError, Slept 60]
          else [BatchDone, Slept (iv * 60)]) \<rparr>"
proof -
  have e: "browsers empty_executor = []" "printed empty_executor = []"
    by (simp_all add: empty_executor_def)
  have w: "w_clock sample_world 0 = sample_clock" "batch_fault sample_world 0 = None"
    "\<not> stop_during sample_world 0"
    by (simp_all add: sample_world_def)
  show ?thesis
    by (simp add: loop_round_def w empty_batch [OF e(1)] e(2))
qed

lemma sample_round_1:
  "loop_round sample_world 10 iv (Suc 0) s =
     s\<lparr> sched_events := sched_events s @ [ErrorLogged OperationalError, Slept 60] \<rparr>"
proof -
  have w: "batch_fault sample_world (Suc 0) = Some OperationalError"
    "\<not> stop_during sample_world (Suc 0)"
    by (simp_all add: sample_world_def)
  show ?thesis
    by (simp add: loop_round_def w batch_fault_raises)
qed

lemma sample_two_rounds:
  "\<not> sleep_overflows (iv * 60) \<Longrightarrow>
   sched_events (start_continuous_automation sample_world 10 iv (Suc (Suc 0)) empty_executor)
     = [BatchDone, Slept (iv * 60), ErrorLogged OperationalError, Slept 60]"
  by (simp add: start_continuous_automation_def sample_round_0 sample_round_1)

lemma sample_one_round:
  "\<not> sleep_overflows (iv * 60) \<Longrightarrow>
   sched_events (start_continuous_automation sample_world 10 iv (Suc 0) empty_executor)
     = [BatchDone, Slept (iv * 60)]"
  by (simp add: start_continuous_automation_def sample_round_0)

lemma no_overflow_300: "\<not> sleep_overflows (5 * 60)"
  by (simp add: sleep_overflows_def)

lemma no_overflow_60: "\<not> sleep_overflows (1 * 60)"
  by (simp add: sleep_overflows_def)

text \<open>A world whose store raises OperationalError when the second batch is selected: after
  the first round (batch, sleep of 300 seconds) the loop prints the error of the second
  batch, sleeps 60 seconds and is still running.\<close>

theorem C4_loop_survives_batch_errors_witness:
  "\<not> stop_during sample_world 0 \<and>
   batch_fault sample_world (Suc 0) = Some OperationalError \<and>
   running (start_continuous_automation sample_world 10 5 (Suc 0) empty_executor) \<and>
   rounds 5 (sched_events (start_continuous_automation sample_world 10 5 (Suc 0) empty_executor))
     = Some (Suc 0) \<and>
   sched_events (start_continuous_automation sample_world 10 5 (Suc 0) empty_executor)
     = [BatchDone, Slept (5 * 60)] \<and>
   sched_events (start_continuous_automation sample_world 10 5 (Suc (Suc 0)) empty_executor)
     = sched_events (start_continuous_automation sample_world 10 5 (Suc 0) empty_executor)
         @ [ErrorLogged OperationalError, Slept 60] \<and>
   running (start_continuous_automation sample_world 10 5 (Suc (Suc 0)) empty_executor)"
proof -
  have s: "\<not> stop_during sample_world 0" "\<not> stop_during sample_world (Suc 0)"
    and f: "batch_fault sample_world (Suc 0) = Some OperationalError"
    by (simp_all add: sample_world_def)
  from s(1) have h: "\<forall>i<Suc 0. \<not> stop_during sample_world i" by simp
  note t = C4_loop_survives_batch_errors [OF h, where b = 10 and iv = 5
      and ex = empty_executor]
  note a = t [THEN conjunct1]
  note b = t [THEN conjunct2, THEN conjunct1]
  note err = t [THEN conjunct2, THEN conjunct2, THEN conjunct1, rule_format]
  note flt = t [THEN conjunct2, THEN conjunct2, THEN conjunct2, THEN conjunct1, rule_format]
  note p = flt [OF f]
  note c = err [OF p, THEN conjunct1]
  note d = err [OF p, THEN conjunct2]
  from d s(2)
  have d': "running (start_continuous_automation sample_world 10 5 (Suc (Suc 0)) empty_executor)"
    by simp
  note ev = sample_one_round [OF no_overflow_300]
  from s(1) f a b ev c d' show ?thesis by (intro conjI)
qed

text \<open>
  C4 as stated fails for the interval of one minute: the sleep after the completed first
  batch is 60 seconds and the sleep after the failed second batch is 60 seconds too, so
  the backoff is not strictly shorter than the normal interval.
\<close>

theorem C4_counterexample:
  "sched_events (start_continuous_automation sample_world 10 1 (Suc (Suc 0)) empty_executor)
     = [BatchDone, Slept (1 * 60), ErrorLogged OperationalError, Slept 60] \<and>
   \<not> (60 :: int) < 1 * 60"
  using sample_two_rounds [OF no_overflow_60] by simp

text \<open>An interval too long for the event loop: the batch completes, the sleep raises, and
  the loop prints the error and sleeps 60 seconds.\<close>

lemma sample_sleep_overflow:
  "sched_events (start_continuous_automation sample_world 10 (2 ^ 1024) (Suc 0) empty_executor)
     = [BatchDone, ErrorLogged OverflowError, Slept 60]"
  by (simp add: start_continuous_automation_def sample_round_0 sleep_overflows_def)

subsection \<open>Importing proxies\<close>

lemma find_same_endpoint:
  "0 < length (filter (same_endpoint h n u) ps) \<Longrightarrow>
     \<exists>p. find (same_endpoint h n u) ps = Some p"
  by (induction ps) auto

text \<open>The path taken when browsers are imported does deduplicate: when the table has a
  row with the host, port and user name, \<open>create_or_find_proxy\<close> answers with the id of
  such a row and leaves the table as it is.\<close>

lemma create_or_find_proxy_existing:
  assumes "fits_int64 n" "0 < endpoint_count t h n u"
  shows "\<exists>i. create_or_find_proxy t h n u pw = Inr (i, t)"
proof -
  from assms(2) obtain p where "find (same_endpoint h n u) (p_rows t) = Some p"
    unfolding endpoint_count_def using find_same_endpoint by blast
  with assms(1) show ?thesis
    by (simp add: create_or_find_proxy_def)
qed

lemma sample_port: "int_of_digits ''8080'' = Some 8080"
  by (simp add: int_of_digits_def digit_value_def)

text \<open>
  C9. Importing a proxies file does not deduplicate. The table holds one proxy with host
  192.168.1.100, port 8080 and user name user1; \<open>import_proxies_from_csv\<close> on a file with
  one row for the same host, port and user name inserts it as row 2 and reports no
  error, so the table then holds two rows with that host, port and user name. On the same
  table \<open>create_or_find_proxy\<close> with the same host, port and user name answers 1 and
  changes nothing.
\<close>

theorem C9_import_proxies_duplicates:
  "endpoint_count one_proxy_table ''192.168.1.100'' 8080 ''user1'' = 1 \<and>
   proxy_ids (import_proxies_from_csv int_of_digits one_proxy_table [sample_proxy_row]) = [2] \<and>
   ir_errors (import_proxies_from_csv int_of_digits one_proxy_table [sample_proxy_row]) = [] \<and>
   endpoint_count
     (ir_table (import_proxies_from_csv int_of_digits one_proxy_table [sample_proxy_row]))
     ''192.168.1.100'' 8080 ''user1'' = 2 \<and>
   create_or_find_proxy one_proxy_table ''192.168.1.100'' 8080 ''user1'' ''pass1''
     = Inr (1, one_proxy_table)"
  by (simp add: import_proxies_from_csv_def insert_csv_proxy_def row_item_def int_item_def
        row_get_def sample_proxy_row_def sample_port fits_int64_def insert_proxy_def
        next_id_def one_proxy_table_def endpoint_count_def same_endpoint_def
        create_or_find_proxy_def)

end
